theory Spec2Isabelle
  imports Complex_Main
begin

section \<open>JavaScript numbers\<close>

text \<open>
  The TypeScript sources compute with \<open>number\<close>. A number is modelled as a real (the
  finite values, computed exactly: no rounding and no overflow) or one of the three special
  values \<open>NaN\<close>, \<open>+Infinity\<close>, \<open>-Infinity\<close>. The special values arise and
  propagate as in IEEE 754: \<open>x / 0\<close> is an infinity or \<open>NaN\<close>, every comparison
  with \<open>NaN\<close> is false. Zero carries no sign (\<open>x / 0\<close> takes the sign of \<open>x\<close>).
\<close>

datatype jsnum = Fin real | NaN | PInf | NInf

fun jsnum_neg :: "jsnum \<Rightarrow> jsnum" where
  "jsnum_neg (Fin a) = Fin (- a)"
| "jsnum_neg NaN = NaN"
| "jsnum_neg PInf = NInf"
| "jsnum_neg NInf = PInf"

fun jsnum_add :: "jsnum \<Rightarrow> jsnum \<Rightarrow> jsnum" where
  "jsnum_add (Fin a) (Fin b) = Fin (a + b)"
| "jsnum_add NaN _ = NaN"
| "jsnum_add _ NaN = NaN"
| "jsnum_add PInf NInf = NaN"
| "jsnum_add NInf PInf = NaN"
| "jsnum_add PInf _ = PInf"
| "jsnum_add _ PInf = PInf"
| "jsnum_add NInf _ = NInf"
| "jsnum_add _ NInf = NInf"

fun jsnum_mul :: "jsnum \<Rightarrow> jsnum \<Rightarrow> jsnum" where
  "jsnum_mul (Fin a) (Fin b) = Fin (a * b)"
| "jsnum_mul NaN _ = NaN"
| "jsnum_mul _ NaN = NaN"
| "jsnum_mul (Fin a) PInf = (if a = 0 then NaN else if 0 < a then PInf else NInf)"
| "jsnum_mul (Fin a) NInf = (if a = 0 then NaN else if 0 < a then NInf else PInf)"
| "jsnum_mul PInf (Fin b) = (if b = 0 then NaN else if 0 < b then PInf else NInf)"
| "jsnum_mul NInf (Fin b) = (if b = 0 then NaN else if 0 < b then NInf else PInf)"
| "jsnum_mul PInf PInf = PInf"
| "jsnum_mul PInf NInf = NInf"
| "jsnum_mul NInf PInf = NInf"
| "jsnum_mul NInf NInf = PInf"

fun jsnum_div :: "jsnum \<Rightarrow> jsnum \<Rightarrow> jsnum" where
  "jsnum_div (Fin a) (Fin b) =
     (if b = 0 then (if a = 0 then NaN else if 0 < a then PInf else NInf) else Fin (a / b))"
| "jsnum_div NaN _ = NaN"
| "jsnum_div _ NaN = NaN"
| "jsnum_div (Fin a) PInf = Fin 0"
| "jsnum_div (Fin a) NInf = Fin 0"
| "jsnum_div PInf (Fin b) = (if 0 \<le> b then PInf else NInf)"
| "jsnum_div NInf (Fin b) = (if 0 \<le> b then NInf else PInf)"
| "jsnum_div PInf PInf = NaN"
| "jsnum_div PInf NInf = NaN"
| "jsnum_div NInf PInf = NaN"
| "jsnum_div NInf NInf = NaN"

text \<open>\<open>a < b\<close> of JavaScript; \<open>a > b\<close> is \<open>b < a\<close>.\<close>

fun jsnum_less :: "jsnum \<Rightarrow> jsnum \<Rightarrow> bool" where
  "jsnum_less (Fin a) (Fin b) = (a < b)"
| "jsnum_less NaN _ = False"
| "jsnum_less _ NaN = False"
| "jsnum_less _ NInf = False"
| "jsnum_less PInf _ = False"
| "jsnum_less NInf _ = True"
| "jsnum_less _ PInf = True"

text \<open>\<open>a === b\<close> on numbers: \<open>NaN\<close> equals nothing, itself included.\<close>

fun jseq :: "jsnum \<Rightarrow> jsnum \<Rightarrow> bool" where
  "jseq NaN _ = False"
| "jseq _ NaN = False"
| "jseq a b = (a = b)"

instantiation jsnum :: "{plus, minus, uminus, times, inverse, ord}"
begin

definition plus_jsnum :: "jsnum \<Rightarrow> jsnum \<Rightarrow> jsnum" where
  "plus_jsnum a b = jsnum_add a b"

definition uminus_jsnum :: "jsnum \<Rightarrow> jsnum" where
  "uminus_jsnum a = jsnum_neg a"

definition minus_jsnum :: "jsnum \<Rightarrow> jsnum \<Rightarrow> jsnum" where
  "minus_jsnum a b = jsnum_add a (jsnum_neg b)"

definition times_jsnum :: "jsnum \<Rightarrow> jsnum \<Rightarrow> jsnum" where
  "times_jsnum a b = jsnum_mul a b"

definition divide_jsnum :: "jsnum \<Rightarrow> jsnum \<Rightarrow> jsnum" where
  "divide_jsnum a b = jsnum_div a b"

definition inverse_jsnum :: "jsnum \<Rightarrow> jsnum" where
  "inverse_jsnum a = jsnum_div (Fin 1) a"

definition less_jsnum :: "jsnum \<Rightarrow> jsnum \<Rightarrow> bool" where
  "less_jsnum a b = jsnum_less a b"

definition less_eq_jsnum :: "jsnum \<Rightarrow> jsnum \<Rightarrow> bool" where
  "less_eq_jsnum a b = (jsnum_less a b \<or> jseq a b)"

instance ..

end

text \<open>A number converted from an array length or an integer input.\<close>

definition num :: "nat \<Rightarrow> jsnum" where
  "num n = Fin (real n)"

text \<open>\<open>isNaN\<close>, \<open>isFinite\<close> and the truthiness of a number (\<open>if (x)\<close>).\<close>

definition isNaN :: "jsnum \<Rightarrow> bool" where
  "isNaN x = (x = NaN)"

fun isFinite :: "jsnum \<Rightarrow> bool" where
  "isFinite (Fin a) = True"
| "isFinite _ = False"

fun truthy :: "jsnum \<Rightarrow> bool" where
  "truthy (Fin a) = (a \<noteq> 0)"
| "truthy NaN = False"
| "truthy _ = True"

fun Math_abs :: "jsnum \<Rightarrow> jsnum" where
  "Math_abs (Fin a) = Fin \<bar>a\<bar>"
| "Math_abs NaN = NaN"
| "Math_abs _ = PInf"

text \<open>\<open>Math.max\<close> is \<open>NaN\<close> as soon as one argument is.\<close>

definition Math_max2 :: "jsnum \<Rightarrow> jsnum \<Rightarrow> jsnum" where
  "Math_max2 a b = (if a = NaN \<or> b = NaN then NaN else if a < b then b else a)"





section \<open>Indicator calculator\<close>

text \<open>
  The chart indicator calculator. A \<open>(number | null)[]\<close> is a list of \<open>jsnum option\<close>
  with \<open>None\<close> for \<open>null\<close>. The integer inputs (\<open>length\<close>, \<open>fastLength\<close>,
  \<open>slowLength\<close>, \<open>signalLength\<close>; the input schema declares them \<open>int\<close>) are
  natural numbers, zero included; negative and fractional lengths are outside the model.
  The time of a candle is a stamp the calculator only copies, a natural number here.
  A write to \<open>result[period - 1]\<close> with \<open>period = 0\<close> sets the property \<open>-1\<close> of
  the array object, which is no element of the array: the model writes no element there.
\<close>

record Candle =
  time :: nat
  open_c :: jsnum
  high :: jsnum
  low :: jsnum
  close :: jsnum
  volume :: jsnum

datatype chart_point =
  LineData nat jsnum
| HistogramData nat jsnum string
| WhitespaceData nat

record series =
  series_name :: string
  series_data :: "chart_point list"
  series_color :: string

record IndicatorResult =
  result_id :: string
  overlay :: bool
  lines :: "series list"
  histograms :: "series list"

record indicator_inputs =
  in_length :: nat
  in_mult :: jsnum
  in_fastLength :: nat
  in_slowLength :: nat
  in_signalLength :: nat

subsection \<open>Helper functions\<close>


fun ema_loop :: "jsnum \<Rightarrow> jsnum \<Rightarrow> jsnum list \<Rightarrow> jsnum option list" where
  "ema_loop multiplier prevEma [] = []"
| "ema_loop multiplier prevEma (d # ds) =
     (let currentEma = (d - prevEma) * multiplier + prevEma
      in Some currentEma # ema_loop multiplier currentEma ds)"

definition ema :: "jsnum list \<Rightarrow> nat \<Rightarrow> jsnum option list" where
  "ema data period =
     (let multiplier = Fin 2 / (num period + Fin 1);
          sum = foldl (+) (Fin 0) (take period data)
      in if period \<le> length data
         then (if period = 0 then [] else replicate (period - 1) None @ [Some (sum / num period)])
              @ ema_loop multiplier (sum / num period) (drop period data)
         else replicate (length data) None)"

definition price_changes :: "jsnum list \<Rightarrow> jsnum list" where
  "price_changes closes = map (\<lambda>i. closes ! i - closes ! (i - 1)) [1..<length closes]"

definition rsi_first_avg :: "jsnum list \<Rightarrow> jsnum \<times> jsnum" where
  "rsi_first_avg chs =
     foldl (\<lambda>(avgGain, avgLoss) c.
              if Fin 0 < c then (avgGain + c, avgLoss) else (avgGain, avgLoss + Math_abs c))
           (Fin 0, Fin 0) chs"

definition rsi_value :: "jsnum \<Rightarrow> jsnum \<Rightarrow> jsnum" where
  "rsi_value avgGain avgLoss =
     (if jseq avgLoss (Fin 0) then Fin 100
      else Fin 100 - (Fin 100 / (Fin 1 + avgGain / avgLoss)))"

fun rsi_loop :: "nat \<Rightarrow> jsnum \<Rightarrow> jsnum \<Rightarrow> jsnum list \<Rightarrow> jsnum option list" where
  "rsi_loop period avgGain avgLoss [] = []"
| "rsi_loop period avgGain avgLoss (change # chs) =
     (let gain = (if Fin 0 < change then change else Fin 0);
          loss = (if change < Fin 0 then Math_abs change else Fin 0);
          avgGain' = (avgGain * (num period - Fin 1) + gain) / num period;
          avgLoss' = (avgLoss * (num period - Fin 1) + loss) / num period
      in Some (rsi_value avgGain' avgLoss') # rsi_loop period avgGain' avgLoss' chs)"

definition rsi :: "jsnum list \<Rightarrow> nat \<Rightarrow> jsnum option list" where
  "rsi closes period =
     (if length closes < period + 1 then replicate (length closes) None
      else
        let changes = price_changes closes;
            (gainSum, lossSum) = rsi_first_avg (take period changes);
            avgGain = gainSum / num period;
            avgLoss = lossSum / num period
        in replicate period None @ [Some (rsi_value avgGain avgLoss)]
           @ rsi_loop period avgGain avgLoss (drop period changes))"





subsection \<open>Safe data builders\<close>

text \<open>
  \<open>values[i]\<close> beyond the end of \<open>values\<close> is \<open>undefined\<close>, which passes
  \<open>!== null\<close> and fails \<open>!isNaN\<close>: a whitespace point, as for \<open>null\<close>.
\<close>

definition value_at :: "jsnum option list \<Rightarrow> nat \<Rightarrow> jsnum option" where
  "value_at vals i = (if i < length vals then vals ! i else None)"

definition plottable :: "jsnum option \<Rightarrow> bool" where
  "plottable v = (case v of None \<Rightarrow> False | Some x \<Rightarrow> \<not> isNaN x \<and> isFinite x)"

definition buildLineData :: "Candle list \<Rightarrow> jsnum option list \<Rightarrow> chart_point list" where
  "buildLineData candles vals =
     map (\<lambda>i. let v = value_at vals i; t = time (candles ! i)
               in if plottable v then LineData t (the v) else WhitespaceData t)
         [0..<length candles]"

definition buildHistogramData ::
  "Candle list \<Rightarrow> jsnum option list \<Rightarrow> string \<Rightarrow> string \<Rightarrow> chart_point list" where
  "buildHistogramData candles vals colorUp colorDown =
     map (\<lambda>i. let v = value_at vals i; t = time (candles ! i)
               in if plottable v
                  then HistogramData t (the v) (if Fin 0 \<le> the v then colorUp else colorDown)
                  else WhitespaceData t)
         [0..<length candles]"

subsection \<open>Indicator calculators\<close>





text \<open>
  \<open>macdLine\<close>: null where either average is null, else fast minus slow.
  \<open>map_signal\<close> is the loop that writes \<open>signalEma[macdIdx] ?? null\<close> at every index
  whose MACD value is not null, advancing \<open>macdIdx\<close>.
\<close>

definition minus_values :: "jsnum option list \<Rightarrow> jsnum option list \<Rightarrow> nat \<Rightarrow> jsnum option" where
  "minus_values xs ys i =
     (case value_at xs i of None \<Rightarrow> None
      | Some x \<Rightarrow> (case value_at ys i of None \<Rightarrow> None | Some y \<Rightarrow> Some (x - y)))"

fun map_signal :: "jsnum option list \<Rightarrow> jsnum option list \<Rightarrow> nat \<Rightarrow> jsnum option list" where
  "map_signal [] signalEma macdIdx = []"
| "map_signal (None # ms) signalEma macdIdx = None # map_signal ms signalEma macdIdx"
| "map_signal (Some m # ms) signalEma macdIdx =
     value_at signalEma macdIdx # map_signal ms signalEma (macdIdx + 1)"

text \<open>The three value arrays of \<open>calculateMACD\<close>: MACD line, signal line, histogram.
  As in the source, \<open>slowLength\<close> is read from \<open>inputs.signalLength\<close>.\<close>

definition macd_values ::
  "Candle list \<Rightarrow> indicator_inputs \<Rightarrow> jsnum option list \<times> jsnum option list \<times> jsnum option list" where
  "macd_values candles inputs =
     (let fastLength = in_fastLength inputs;
          slowLength = in_signalLength inputs;
          signalLength = in_signalLength inputs;
          closes = map close candles;
          fastEma = ema closes fastLength;
          slowEma = ema closes slowLength;
          macdLine = map (minus_values fastEma slowEma) [0..<length closes];
          macdValues = map the (filter (\<lambda>v. v \<noteq> None) macdLine);
          signalEma = ema macdValues signalLength;
          signalLine = map_signal macdLine signalEma 0;
          histogramValues = map (minus_values macdLine signalLine) [0..<length candles]
      in (macdLine, signalLine, histogramValues))"

definition calculateMACD :: "Candle list \<Rightarrow> indicator_inputs \<Rightarrow> IndicatorResult" where
  "calculateMACD candles inputs =
     (case macd_values candles inputs of (macdLine, signalLine, histogramValues) \<Rightarrow>
        \<lparr>result_id = ''macd'', overlay = False,
         lines = [\<lparr>series_name = ''macd'', series_data = buildLineData candles macdLine,
                   series_color = ''#2962FF''\<rparr>,
                  \<lparr>series_name = ''signal'', series_data = buildLineData candles signalLine,
                   series_color = ''#FF6D00''\<rparr>],
         histograms = [\<lparr>series_name = ''histogram'',
                        series_data = buildHistogramData candles histogramValues
                                        ''#26a69a'' ''#ef5350'',
                        series_color = ''#26a69a''\<rparr>]\<rparr>)"




subsection \<open>Main calculator\<close>








section \<open>Market forecast\<close>














section \<open>Strategy interface\<close>

text \<open>
  The strategy types (\<open>IStrategy\<close>, \<open>StrategyConfig\<close>, \<open>StrategyState\<close>,
  \<open>StrategySignal\<close>) are imported from \<open>strategy/types\<close>; the records hold what the
  manager and the paper trading engine read of them. A strategy is injected code: its methods are
  fields of the record, functions of the strategy's state, and a method that throws returns
  \<open>Inl\<close> of the thrown value. A thrown value is an \<open>Error\<close> object with its message,
  or anything else. \<open>getConfig\<close> and \<open>getState\<close> are plain getters.
\<close>

datatype js_thrown = ErrorObject string | NonError

datatype param_value = PNum jsnum | PBool bool | PStr string

datatype direction = LONG | SHORT

datatype signal_type = SIG_LONG | SIG_SHORT | EXIT_LONG | EXIT_SHORT | SIG_OTHER

record StrategySignal =
  sig_type :: signal_type
  sig_symbol :: string
  confidence :: jsnum
  suggestedStopLoss :: "jsnum option"
  suggestedTakeProfits :: "(jsnum \<times> jsnum) list option"

record StrategyConfig =
  strat_id :: string
  minCandlesRequired :: nat
  defaultTimeframe :: string

record StrategyState =
  parameters :: "string \<Rightarrow> param_value option"

record position_view =
  pv_direction :: direction
  pv_entryPrice :: jsnum
  pv_currentPrice :: jsnum
  pv_size :: jsnum
  pv_openTime :: nat

type_synonym StrategyIndicators = "(string \<times> jsnum option list) list"

record IStrategy =
  getConfig :: StrategyConfig
  getState :: StrategyState
  initialize :: "(string \<Rightarrow> param_value option) option \<Rightarrow> StrategyState \<Rightarrow> StrategyState"
  populateIndicators :: "StrategyState \<Rightarrow> Candle list \<Rightarrow> js_thrown + StrategyIndicators"
  populateEntrySignal ::
    "StrategyState \<Rightarrow> Candle list \<Rightarrow> StrategyIndicators \<Rightarrow> jsnum \<Rightarrow> js_thrown + StrategySignal option"
  populateExitSignal ::
    "StrategyState \<Rightarrow> Candle list \<Rightarrow> StrategyIndicators \<Rightarrow> position_view
       \<Rightarrow> js_thrown + StrategySignal option"

section \<open>Paper trading engine\<close>

text \<open>
  The engine mutates account and position objects in place. In the model an operation takes
  the account it works on and the rest of the engine (\<open>engine_ctx\<close>) and returns both; a
  position is addressed by its index in \<open>account.positions\<close>, which never shrinks. The
  clock (\<open>Date.now()\<close>, \<open>new Date()\<close>) is the argument \<open>now\<close>, in milliseconds.
  The subscribers of \<open>emitEvent\<close> are external callbacks, each called inside its own
  \<open>try\<close>; the model records the events emitted, in order. Position ids \<open>pos-n\<close> are
  the number \<open>n\<close>. Not modelled: \<open>account.metrics\<close> (\<open>calculateFullMetrics\<close>,
  written by \<open>updateAccountMetrics\<close> and read by no operation), the daily PnL
  bookkeeping and the statistics copied into an equity point beyond those kept below.
  The tactics types are imported from \<open>strategy/tactics/types\<close>; the records hold the
  fields the engine reads.
\<close>

datatype position_status = PENDING | OPEN | CLOSING | CLOSED | LIQUIDATED

datatype reason = TP | SL | SIGNAL | PARTIAL | MANUAL | LIQUIDATION | MAX_DRAWDOWN | TRAILING_STOP

datatype account_status = IDLE | RUNNING | PAUSED | STOPPED

datatype event_type =
  POSITION_OPENED | POSITION_CLOSED | POSITION_UPDATED | SIGNAL_GENERATED
| ERROR string | MAX_DRAWDOWN_REACHED | BALANCE_UPDATE

record TacticsTarget =
  tt_price :: "jsnum option"
  profitPercent :: "jsnum option"
  tt_closePercent :: jsnum

record TrailingState =
  activated :: bool
  activationProfit :: "jsnum option"
  highestPrice :: "jsnum option"
  lowestPrice :: "jsnum option"
  percentValue :: "jsnum option"
  currentStopPrice :: "jsnum option"

record TacticsSet =
  tactics_id :: string
  slPrice :: "jsnum option"
  slPercent :: "jsnum option"
  targets :: "TacticsTarget list option"
  tpPrice :: "jsnum option"
  tpPercent :: "jsnum option"
  trailingConfig :: "TrailingState option"

record PaperTradingConfig =
  cfg_id :: string
  cfg_name :: string
  cfg_initialBalance :: jsnum
  strategyId :: string
  tacticsSets :: "TacticsSet list"
  maxRiskPerTrade :: jsnum
  cfg_maxDrawdown :: jsnum
  maxOpenPositions :: jsnum
  maxLeverage :: jsnum
  feePercent :: jsnum
  autoTrading :: bool

record PaperTradeEntry =
  entry_index :: nat
  entry_price :: jsnum
  entry_size :: jsnum
  entry_fee :: jsnum
  entry_timestamp :: nat

record PaperTradeExit =
  exit_index :: nat
  exit_price :: jsnum
  exit_size :: jsnum
  exit_fee :: jsnum
  exit_pnl :: jsnum
  exit_reason :: reason
  exit_timestamp :: nat
  tpIndex :: "nat option"

record PaperTPTarget =
  tp_index :: nat
  tp_price :: jsnum
  closePercent :: jsnum
  filled :: bool
  filledAt :: "nat option"

record PaperPosition =
  pos_id :: nat
  symbol :: string
  direction :: direction
  status :: position_status
  avgEntryPrice :: jsnum
  entries :: "PaperTradeEntry list"
  totalSize :: jsnum
  openedAt :: nat
  avgExitPrice :: "jsnum option"
  exits :: "PaperTradeExit list"
  closedAt :: "nat option"
  closeReason :: "reason option"
  currentPrice :: jsnum
  stopLoss :: "jsnum option"
  takeProfitTargets :: "PaperTPTarget list"
  unrealizedPnl :: jsnum
  unrealizedPnlPercent :: jsnum
  realizedPnl :: jsnum
  totalFees :: jsnum
  leverage :: jsnum
  margin :: jsnum
  liquidationPrice :: "jsnum option"
  tacticsSetId :: string
  trailingState :: "TrailingState option"
  signalConfidence :: "jsnum option"

record PaperTrade =
  trade_positionId :: nat
  trade_symbol :: string
  trade_direction :: direction
  trade_avgEntryPrice :: jsnum
  trade_totalSize :: jsnum
  trade_openedAt :: nat
  trade_avgExitPrice :: jsnum
  trade_closedAt :: nat
  trade_closeReason :: reason
  trade_pnl :: jsnum
  trade_pnlPercent :: jsnum
  trade_fees :: jsnum
  trade_netPnl :: jsnum
  durationMinutes :: jsnum
  trade_tacticsSetId :: string

record PaperEquityPoint =
  ep_timestamp :: nat
  ep_balance :: jsnum
  ep_equity :: jsnum
  ep_unrealizedPnl :: jsnum
  ep_realizedPnl :: jsnum
  ep_openPositions :: nat
  ep_tradesCount :: nat

record PaperAccount =
  acc_id :: string
  acc_name :: string
  config :: PaperTradingConfig
  initialBalance :: jsnum
  balance :: jsnum
  equity :: jsnum
  availableMargin :: jsnum
  maxEquity :: jsnum
  positions :: "PaperPosition list"
  tradeHistory :: "PaperTrade list"
  equityCurve :: "PaperEquityPoint list"
  totalPnl :: jsnum
  totalPnlPercent :: jsnum
  acc_realizedPnl :: jsnum
  acc_unrealizedPnl :: jsnum
  acc_maxDrawdown :: jsnum
  currentDrawdown :: jsnum
  acc_status :: account_status
  startedAt :: "nat option"
  stoppedAt :: "nat option"
  lastUpdate :: nat

record PaperTradingEvent =
  ev_type :: event_type
  ev_timestamp :: nat
  ev_accountId :: string

record engine_ctx =
  eventLog :: "PaperTradingEvent list"
  positionIdCounter :: nat
  lastEquityRecordTime :: "string \<Rightarrow> nat option"

record PaperTradingEngine =
  accounts :: "(string \<times> PaperAccount) list"
  ctx :: engine_ctx

text \<open>Truthiness of an optional number: \<open>undefined\<close>, \<open>0\<close> and \<open>NaN\<close> are falsy.\<close>

definition truthy_opt :: "jsnum option \<Rightarrow> bool" where
  "truthy_opt v = (case v of None \<Rightarrow> False | Some x \<Rightarrow> truthy x)"

definition emitEvent :: "event_type \<Rightarrow> nat \<Rightarrow> string \<Rightarrow> engine_ctx \<Rightarrow> engine_ctx" where
  "emitEvent ty now accountId c =
     c\<lparr>eventLog := eventLog c @ [\<lparr>ev_type = ty, ev_timestamp = now, ev_accountId = accountId\<rparr>]\<rparr>"

text \<open>\<open>positions.filter(p => p.status === "OPEN").reduce((sum, p) => sum + p.unrealizedPnl, 0)\<close>\<close>

definition open_unrealizedPnl :: "PaperAccount \<Rightarrow> jsnum" where
  "open_unrealizedPnl account =
     foldl (\<lambda>sum p. sum + unrealizedPnl p) (Fin 0)
       (filter (\<lambda>p. status p = OPEN) (positions account))"

definition updateAccountMetrics ::
  "nat \<Rightarrow> PaperAccount \<Rightarrow> engine_ctx \<Rightarrow> PaperAccount \<times> engine_ctx" where
  "updateAccountMetrics now account c =
     (let unrealized = open_unrealizedPnl account;
          eq = balance account + unrealized;
          maxEq = (if maxEquity account < eq then eq else maxEquity account);
          drawdown = ((maxEq - eq) / maxEq) * Fin 100;
          total = eq - initialBalance account;
          account' = account
            \<lparr>acc_unrealizedPnl := unrealized, equity := eq, availableMargin := balance account,
             maxEquity := maxEq, currentDrawdown := drawdown,
             acc_maxDrawdown := Math_max2 (acc_maxDrawdown account) drawdown,
             totalPnl := total, totalPnlPercent := (total / initialBalance account) * Fin 100,
             lastUpdate := now\<rparr>;
          c' = (if cfg_maxDrawdown (config account) \<le> drawdown
                then emitEvent MAX_DRAWDOWN_REACHED now (acc_id account) c else c)
      in (account', c'))"

definition recordEquityPoint ::
  "nat \<Rightarrow> PaperAccount \<Rightarrow> engine_ctx \<Rightarrow> PaperAccount \<times> engine_ctx" where
  "recordEquityPoint now account c =
     (let lastRecord = (case lastEquityRecordTime c (acc_id account) of None \<Rightarrow> 0 | Some t \<Rightarrow> t)
      in if int now - int lastRecord < 60000 \<and> equityCurve account \<noteq> [] then (account, c)
         else
           let c' = c\<lparr>lastEquityRecordTime := (lastEquityRecordTime c)(acc_id account \<mapsto> now)\<rparr>;
               unrealized = open_unrealizedPnl account;
               eq = balance account + unrealized;
               maxEq = (if maxEquity account < eq then eq else maxEquity account);
               drawdown = ((maxEq - eq) / maxEq) * Fin 100;
               total = eq - initialBalance account;
               point = \<lparr>ep_timestamp = now, ep_balance = balance account, ep_equity = eq,
                        ep_unrealizedPnl = unrealized, ep_realizedPnl = acc_realizedPnl account,
                        ep_openPositions = length (filter (\<lambda>p. status p = OPEN) (positions account)),
                        ep_tradesCount = length (tradeHistory account)\<rparr>;
               account' = account
                 \<lparr>acc_unrealizedPnl := unrealized, equity := eq, maxEquity := maxEq,
                  currentDrawdown := drawdown,
                  acc_maxDrawdown := (if acc_maxDrawdown account < drawdown then drawdown
                                      else acc_maxDrawdown account),
                  totalPnl := total, totalPnlPercent := (total / initialBalance account) * Fin 100,
                  equityCurve := equityCurve account @ [point], lastUpdate := now\<rparr>
           in (account', c'))"

definition calculateLiquidationPrice :: "jsnum \<Rightarrow> direction \<Rightarrow> jsnum \<Rightarrow> jsnum" where
  "calculateLiquidationPrice entryPrice dir lev =
     (let liquidationPercent = Fin 100 / lev
      in if dir = LONG then entryPrice * (Fin 1 - liquidationPercent / Fin 100)
         else entryPrice * (Fin 1 + liquidationPercent / Fin 100))"

definition calculateAvgExitPrice :: "PaperPosition \<Rightarrow> jsnum" where
  "calculateAvgExitPrice position =
     (if exits position = [] then Fin 0
      else
        let totalValue = foldl (\<lambda>v e. v + exit_price e * exit_size e) (Fin 0) (exits position);
            total = foldl (\<lambda>v e. v + exit_size e) (Fin 0) (exits position)
        in if Fin 0 < total then totalValue / total else Fin 0)"

definition createTrade :: "nat \<Rightarrow> PaperPosition \<Rightarrow> PaperTrade" where
  "createTrade now position =
     (let total = foldl (\<lambda>sum e. sum + entry_size e) (Fin 0) (entries position);
          pnl = realizedPnl position
      in \<lparr>trade_positionId = pos_id position,
          trade_symbol = symbol position,
          trade_direction = direction position,
          trade_avgEntryPrice = avgEntryPrice position,
          trade_totalSize = total,
          trade_openedAt = openedAt position,
          trade_avgExitPrice = (if truthy_opt (avgExitPrice position)
                                then the (avgExitPrice position) else Fin 0),
          trade_closedAt = (case closedAt position of None \<Rightarrow> now | Some t \<Rightarrow> t),
          trade_closeReason = (case closeReason position of None \<Rightarrow> MANUAL | Some r \<Rightarrow> r),
          trade_pnl = pnl,
          trade_pnlPercent = (pnl / margin position) * Fin 100,
          trade_fees = totalFees position,
          trade_netPnl = pnl - totalFees position,
          durationMinutes = (case closedAt position of None \<Rightarrow> Fin 0
                             | Some t \<Rightarrow> (num t - num (openedAt position)) / Fin (1000 * 60)),
          trade_tacticsSetId = tacticsSetId position\<rparr>)"

text \<open>
  \<open>closePosition\<close>: the position is \<open>account.positions[i]\<close>. (An index beyond the
  list stands for no position of the account; the engine itself never passes one.)
\<close>

definition closePosition ::
  "nat \<Rightarrow> nat \<Rightarrow> jsnum \<Rightarrow> reason \<Rightarrow> PaperAccount \<Rightarrow> engine_ctx
     \<Rightarrow> PaperTrade option \<times> PaperAccount \<times> engine_ctx" where
  "closePosition now i price rsn account c =
     (if length (positions account) \<le> i then (None, account, c)
      else
        let position = positions account ! i
        in if status position \<noteq> OPEN then (None, account, c)
           else
             let fee = totalSize position * price * (feePercent (config account) / Fin 100);
                 pnl = (if direction position = LONG
                        then (price - avgEntryPrice position) * totalSize position
                        else (avgEntryPrice position - price) * totalSize position);
                 exit = \<lparr>exit_index = length (exits position) + 1, exit_price = price,
                         exit_size = totalSize position, exit_fee = fee, exit_pnl = pnl,
                         exit_reason = rsn, exit_timestamp = now, tpIndex = None\<rparr>;
                 position' = position
                   \<lparr>exits := exits position @ [exit],
                    realizedPnl := realizedPnl position + (pnl - fee),
                    totalFees := totalFees position + fee,
                    status := CLOSED, closedAt := Some now, avgExitPrice := Some price,
                    closeReason := Some rsn\<rparr>;
                 trade = createTrade now position';
                 account1 = account
                   \<lparr>positions := (positions account)[i := position'],
                    balance := balance account + (margin position' + realizedPnl position'),
                    acc_realizedPnl := acc_realizedPnl account + realizedPnl position',
                    tradeHistory := tradeHistory account @ [trade]\<rparr>;
                 (account2, c2) = updateAccountMetrics now account1 c;
                 (account3, c3) = recordEquityPoint now account2 c2
             in (Some trade, account3, emitEvent POSITION_CLOSED now (acc_id account) c3))"

text \<open>\<open>partialClose\<close> for the target \<open>position.takeProfitTargets[k]\<close>.\<close>

definition partialClose ::
  "nat \<Rightarrow> nat \<Rightarrow> nat \<Rightarrow> jsnum \<Rightarrow> PaperAccount \<Rightarrow> engine_ctx \<Rightarrow> PaperAccount \<times> engine_ctx" where
  "partialClose now i k price account c =
     (let position = positions account ! i;
          tp = takeProfitTargets position ! k;
          closeSize = totalSize position * (closePercent tp / Fin 100);
          fee = closeSize * price * (feePercent (config account) / Fin 100);
          pnl = (if direction position = LONG
                 then (price - avgEntryPrice position) * closeSize
                 else (avgEntryPrice position - price) * closeSize);
          exit = \<lparr>exit_index = length (exits position) + 1, exit_price = price,
                  exit_size = closeSize, exit_fee = fee, exit_pnl = pnl,
                  exit_reason = TP, exit_timestamp = now, tpIndex = Some (tp_index tp)\<rparr>;
          position1 = position
            \<lparr>exits := exits position @ [exit],
             totalSize := totalSize position - closeSize,
             realizedPnl := realizedPnl position + (pnl - fee),
             totalFees := totalFees position + fee,
             takeProfitTargets :=
               (takeProfitTargets position)[k := tp\<lparr>filled := True, filledAt := Some now\<rparr>]\<rparr>;
          c1 = emitEvent POSITION_UPDATED now (acc_id account) c;
          closedNow = (totalSize position1 \<le> Fin 0);
          position2 = (if closedNow
                       then position1\<lparr>status := CLOSED, closedAt := Some now,
                                       avgExitPrice := Some (calculateAvgExitPrice position1),
                                       closeReason := Some TP\<rparr>
                       else position1);
          account1 = account
            \<lparr>positions := (positions account)[i := position2],
             balance := balance account + (pnl - fee),
             tradeHistory := (if closedNow then tradeHistory account @ [createTrade now position2]
                              else tradeHistory account)\<rparr>;
          c2 = (if closedNow then emitEvent POSITION_CLOSED now (acc_id account) c1 else c1)
      in updateAccountMetrics now account1 c2)"

definition updateTrailingStop :: "PaperPosition \<Rightarrow> jsnum \<Rightarrow> PaperPosition" where
  "updateTrailingStop position price =
     (case trailingState position of
        None \<Rightarrow> position
      | Some ts \<Rightarrow>
          if \<not> activated ts then
            (if truthy_opt (activationProfit ts)
                \<and> the (activationProfit ts) \<le> unrealizedPnlPercent position
             then position\<lparr>trailingState :=
                    Some (ts\<lparr>activated := True, highestPrice := Some price,
                              lowestPrice := Some price\<rparr>)\<rparr>
             else position)
          else if direction position = LONG then
            (if \<not> truthy_opt (highestPrice ts) \<or> the (highestPrice ts) < price then
               (let ts1 = ts\<lparr>highestPrice := Some price\<rparr>
                in if truthy_opt (percentValue ts) then
                     (let newSL = price * (Fin 1 - the (percentValue ts) / Fin 100)
                      in if \<not> truthy_opt (stopLoss position) \<or> the (stopLoss position) < newSL
                         then position\<lparr>stopLoss := Some newSL,
                                trailingState := Some (ts1\<lparr>currentStopPrice := Some newSL\<rparr>)\<rparr>
                         else position\<lparr>trailingState := Some ts1\<rparr>)
                   else position\<lparr>trailingState := Some ts1\<rparr>)
             else position)
          else
            (if \<not> truthy_opt (lowestPrice ts) \<or> price < the (lowestPrice ts) then
               (let ts1 = ts\<lparr>lowestPrice := Some price\<rparr>
                in if truthy_opt (percentValue ts) then
                     (let newSL = price * (Fin 1 + the (percentValue ts) / Fin 100)
                      in if \<not> truthy_opt (stopLoss position) \<or> newSL < the (stopLoss position)
                         then position\<lparr>stopLoss := Some newSL,
                                trailingState := Some (ts1\<lparr>currentStopPrice := Some newSL\<rparr>)\<rparr>
                         else position\<lparr>trailingState := Some ts1\<rparr>)
                   else position\<lparr>trailingState := Some ts1\<rparr>)
             else position))"

text \<open>
  The price tick of one position. \<open>stopLossHit\<close> is \<open>isSLHit\<close> under its guard
  \<open>if (position.stopLoss)\<close>; \<open>isTPHit\<close> and \<open>isLiquidated\<close> likewise.
\<close>

definition stopLossHit :: "PaperPosition \<Rightarrow> jsnum \<Rightarrow> bool" where
  "stopLossHit position price =
     (truthy_opt (stopLoss position)
      \<and> (if direction position = LONG then price \<le> the (stopLoss position)
         else the (stopLoss position) \<le> price))"

definition isTPHit :: "PaperPosition \<Rightarrow> PaperTPTarget \<Rightarrow> jsnum \<Rightarrow> bool" where
  "isTPHit position tp price =
     (if direction position = LONG then tp_price tp \<le> price else price \<le> tp_price tp)"

definition isLiquidated :: "PaperPosition \<Rightarrow> jsnum \<Rightarrow> bool" where
  "isLiquidated position price =
     (truthy_opt (liquidationPrice position)
      \<and> (if direction position = LONG then price \<le> the (liquidationPrice position)
         else the (liquidationPrice position) \<le> price))"

fun checkTakeProfits ::
  "nat \<Rightarrow> nat \<Rightarrow> jsnum \<Rightarrow> nat list \<Rightarrow> PaperAccount \<Rightarrow> engine_ctx \<Rightarrow> PaperAccount \<times> engine_ctx" where
  "checkTakeProfits now i price [] account c = (account, c)"
| "checkTakeProfits now i price (k # ks) account c =
     (if filled (takeProfitTargets (positions account ! i) ! k)
      then checkTakeProfits now i price ks account c
      else if isTPHit (positions account ! i) (takeProfitTargets (positions account ! i) ! k) price
      then checkTakeProfits now i price ks
             (fst (partialClose now i k (tp_price (takeProfitTargets (positions account ! i) ! k))
                     account c))
             (snd (partialClose now i k (tp_price (takeProfitTargets (positions account ! i) ! k))
                     account c))
      else checkTakeProfits now i price ks account c)"

definition updatePositionPrice ::
  "nat \<Rightarrow> nat \<Rightarrow> jsnum \<Rightarrow> PaperAccount \<Rightarrow> engine_ctx \<Rightarrow> PaperAccount \<times> engine_ctx" where
  "updatePositionPrice now i price account c =
     (let position = positions account ! i;
          pnl = (if direction position = LONG
                 then (price - avgEntryPrice position) * totalSize position
                 else (avgEntryPrice position - price) * totalSize position);
          position1 = position
            \<lparr>currentPrice := price, unrealizedPnl := pnl,
             unrealizedPnlPercent := (pnl / margin position) * Fin 100\<rparr>;
          account1 = account\<lparr>positions := (positions account)[i := position1]\<rparr>
      in if stopLossHit position1 price
         then snd (closePosition now i (the (stopLoss position1)) SL account1 c)
         else
           let (account2, c2) =
                 checkTakeProfits now i price [0..<length (takeProfitTargets position1)] account1 c;
               position3 = updateTrailingStop (positions account2 ! i) price;
               account3 = account2\<lparr>positions := (positions account2)[i := position3]\<rparr>
           in if isLiquidated position3 price
              then snd (closePosition now i (the (liquidationPrice position3)) LIQUIDATION account3 c2)
              else (account3, c2))"

text \<open>\<open>updatePrices\<close>: the loop over the positions of one account, the loop over the
  accounts, and the method. \<open>prices[symbol]\<close> is \<open>None\<close> when the record has no such key.\<close>

fun updatePositions ::
  "nat \<Rightarrow> (string \<Rightarrow> jsnum option) \<Rightarrow> nat list \<Rightarrow> PaperAccount \<Rightarrow> engine_ctx
     \<Rightarrow> PaperAccount \<times> engine_ctx" where
  "updatePositions now prices [] account c = (account, c)"
| "updatePositions now prices (i # rest) account c =
     (if status (positions account ! i) \<noteq> OPEN then updatePositions now prices rest account c
      else if \<not> truthy_opt (prices (symbol (positions account ! i)))
      then updatePositions now prices rest account c
      else updatePositions now prices rest
             (fst (updatePositionPrice now i (the (prices (symbol (positions account ! i)))) account c))
             (snd (updatePositionPrice now i (the (prices (symbol (positions account ! i)))) account c)))"

definition updateAccount ::
  "nat \<Rightarrow> (string \<Rightarrow> jsnum option) \<Rightarrow> PaperAccount \<Rightarrow> engine_ctx \<Rightarrow> PaperAccount \<times> engine_ctx" where
  "updateAccount now prices account c =
     (if acc_status account \<noteq> RUNNING then (account, c)
      else
        let (account1, c1) = updatePositions now prices [0..<length (positions account)] account c;
            (account2, c2) = updateAccountMetrics now account1 c1
        in recordEquityPoint now account2 c2)"

fun updateAccounts ::
  "nat \<Rightarrow> (string \<Rightarrow> jsnum option) \<Rightarrow> (string \<times> PaperAccount) list \<Rightarrow> engine_ctx
     \<Rightarrow> (string \<times> PaperAccount) list \<times> engine_ctx" where
  "updateAccounts now prices [] c = ([], c)"
| "updateAccounts now prices ((accountId, account) # rest) c =
     ((accountId, fst (updateAccount now prices account c))
        # fst (updateAccounts now prices rest (snd (updateAccount now prices account c))),
      snd (updateAccounts now prices rest (snd (updateAccount now prices account c))))"

definition updatePrices ::
  "nat \<Rightarrow> (string \<Rightarrow> jsnum option) \<Rightarrow> PaperTradingEngine \<Rightarrow> PaperTradingEngine" where
  "updatePrices now prices eng =
     (case updateAccounts now prices (accounts eng) (ctx eng) of
        (accs, c) \<Rightarrow> \<lparr>accounts = accs, ctx = c\<rparr>)"

text \<open>\<open>Map.get\<close> and \<open>Map.set\<close> on the accounts: a new key goes to the end, an
  existing key keeps its place.\<close>

definition getAccount :: "PaperTradingEngine \<Rightarrow> string \<Rightarrow> PaperAccount option" where
  "getAccount eng accountId = map_of (accounts eng) accountId"

fun map_set :: "string \<Rightarrow> 'v \<Rightarrow> (string \<times> 'v) list \<Rightarrow> (string \<times> 'v) list" where
  "map_set k v [] = [(k, v)]"
| "map_set k v ((k', v') # rest) = (if k' = k then (k, v) # rest else (k', v') # map_set k v rest)"

definition createAccount ::
  "nat \<Rightarrow> PaperTradingConfig \<Rightarrow> PaperTradingEngine \<Rightarrow> PaperAccount \<times> PaperTradingEngine" where
  "createAccount now cfg eng =
     (let account0 =
            \<lparr>acc_id = cfg_id cfg, acc_name = cfg_name cfg, config = cfg,
             initialBalance = cfg_initialBalance cfg, balance = cfg_initialBalance cfg,
             equity = cfg_initialBalance cfg, availableMargin = cfg_initialBalance cfg,
             maxEquity = cfg_initialBalance cfg, positions = [], tradeHistory = [],
             equityCurve = [], totalPnl = Fin 0, totalPnlPercent = Fin 0,
             acc_realizedPnl = Fin 0, acc_unrealizedPnl = Fin 0, acc_maxDrawdown = Fin 0,
             currentDrawdown = Fin 0, acc_status = IDLE, startedAt = None, stoppedAt = None,
             lastUpdate = now\<rparr>;
          c0 = (ctx eng)\<lparr>lastEquityRecordTime := (lastEquityRecordTime (ctx eng))(cfg_id cfg \<mapsto> now)\<rparr>;
          (account1, c1) = recordEquityPoint now account0 c0;
          c2 = emitEvent BALANCE_UPDATE now (acc_id account1) c1
      in (account1, \<lparr>accounts = map_set (acc_id account1) account1 (accounts eng), ctx = c2\<rparr>))"

record op_result =
  success :: bool
  error :: "string option"


definition engine_stop :: "nat \<Rightarrow> string \<Rightarrow> PaperTradingEngine \<Rightarrow> PaperTradingEngine" where
  "engine_stop now accountId eng =
     (case getAccount eng accountId of
        None \<Rightarrow> eng
      | Some account \<Rightarrow>
          eng\<lparr>accounts := map_set accountId
                 (account\<lparr>acc_status := STOPPED, stoppedAt := Some now\<rparr>) (accounts eng)\<rparr>)"


definition resume :: "string \<Rightarrow> PaperTradingEngine \<Rightarrow> PaperTradingEngine" where
  "resume accountId eng =
     (case getAccount eng accountId of
        None \<Rightarrow> eng
      | Some account \<Rightarrow>
          eng\<lparr>accounts := map_set accountId (account\<lparr>acc_status := RUNNING\<rparr>) (accounts eng)\<rparr>)"

definition canOpenPosition :: "PaperAccount \<Rightarrow> string \<Rightarrow> bool" where
  "canOpenPosition account symb =
     (let openPositions = length (filter (\<lambda>p. status p = OPEN) (positions account));
          hasSymbolPosition = list_ex (\<lambda>p. status p = OPEN \<and> symbol p = symb) (positions account)
      in num openPositions < maxOpenPositions (config account) \<and> \<not> hasSymbolPosition)"



definition tactics_stopLoss :: "TacticsSet \<Rightarrow> direction \<Rightarrow> jsnum \<Rightarrow> jsnum option" where
  "tactics_stopLoss tactics dir price =
     (if truthy_opt (slPrice tactics) then slPrice tactics
      else if truthy_opt (slPercent tactics)
      then Some (if dir = LONG then price * (Fin 1 - the (slPercent tactics) / Fin 100)
                 else price * (Fin 1 + the (slPercent tactics) / Fin 100))
      else None)"

definition tactics_takeProfits :: "TacticsSet \<Rightarrow> direction \<Rightarrow> jsnum \<Rightarrow> PaperTPTarget list" where
  "tactics_takeProfits tactics dir price =
     (case targets tactics of
        Some ts \<Rightarrow>
          map (\<lambda>i. let t = ts ! i;
                       pct = (if truthy_opt (profitPercent t) then the (profitPercent t) else Fin 0)
                   in \<lparr>tp_index = i + 1,
                       tp_price = (if truthy_opt (tt_price t) then the (tt_price t)
                                   else if dir = LONG then price * (Fin 1 + pct / Fin 100)
                                   else price * (Fin 1 - pct / Fin 100)),
                       closePercent = tt_closePercent t, filled = False, filledAt = None\<rparr>)
              [0..<length ts]
      | None \<Rightarrow>
          if truthy_opt (tpPrice tactics)
          then [\<lparr>tp_index = 1, tp_price = the (tpPrice tactics), closePercent = Fin 100,
                  filled = False, filledAt = None\<rparr>]
          else if truthy_opt (tpPercent tactics)
          then [\<lparr>tp_index = 1,
                  tp_price = (if dir = LONG then price * (Fin 1 + the (tpPercent tactics) / Fin 100)
                              else price * (Fin 1 - the (tpPercent tactics) / Fin 100)),
                  closePercent = Fin 100, filled = False, filledAt = None\<rparr>]
          else [])"

definition createPosition ::
  "nat \<Rightarrow> PaperAccount \<Rightarrow> string \<Rightarrow> direction \<Rightarrow> jsnum \<Rightarrow> jsnum \<Rightarrow> jsnum \<Rightarrow> TacticsSet option
     \<Rightarrow> engine_ctx \<Rightarrow> PaperPosition \<times> PaperAccount \<times> engine_ctx" where
  "createPosition now account symb dir sz price lev tacticsSet c =
     (let mrg = (sz * price) / lev;
          fee = sz * price * (feePercent (config account) / Fin 100);
          account' = account\<lparr>balance := balance account - (mrg + fee)\<rparr>;
          tactics = (case tacticsSet of Some t \<Rightarrow> Some t
                     | None \<Rightarrow> (case tacticsSets (config account) of [] \<Rightarrow> None
                                 | t # _ \<Rightarrow> Some t));
          n = positionIdCounter c + 1;
          position =
            \<lparr>pos_id = n, symbol = symb, direction = dir, status = OPEN, avgEntryPrice = price,
             entries = [\<lparr>entry_index = 1, entry_price = price, entry_size = sz, entry_fee = fee,
                         entry_timestamp = now\<rparr>],
             totalSize = sz, openedAt = now, avgExitPrice = None, exits = [], closedAt = None,
             closeReason = None, currentPrice = price,
             stopLoss = (case tactics of None \<Rightarrow> None | Some t \<Rightarrow> tactics_stopLoss t dir price),
             takeProfitTargets =
               (case tactics of None \<Rightarrow> [] | Some t \<Rightarrow> tactics_takeProfits t dir price),
             unrealizedPnl = Fin 0, unrealizedPnlPercent = Fin 0, realizedPnl = Fin 0,
             totalFees = fee, leverage = lev, margin = mrg,
             liquidationPrice = Some (calculateLiquidationPrice price dir lev),
             tacticsSetId = (case tactics of None \<Rightarrow> [] | Some t \<Rightarrow> tactics_id t),
             trailingState = (case tactics of None \<Rightarrow> None | Some t \<Rightarrow> trailingConfig t),
             signalConfidence = None\<rparr>
      in (position, account', c\<lparr>positionIdCounter := n\<rparr>))"

record open_options =
  opt_stopLoss :: "jsnum option"
  opt_takeProfit :: "jsnum option"
  opt_leverage :: "jsnum option"
  opt_tacticsSet :: "TacticsSet option"

definition openPosition ::
  "nat \<Rightarrow> string \<Rightarrow> string \<Rightarrow> direction \<Rightarrow> jsnum \<Rightarrow> jsnum \<Rightarrow> open_options \<Rightarrow> PaperTradingEngine
     \<Rightarrow> (op_result \<times> PaperPosition option) \<times> PaperTradingEngine" where
  "openPosition now accountId symb dir sz price options eng =
     (case getAccount eng accountId of
        None \<Rightarrow> ((\<lparr>success = False, error = Some ''Account not found''\<rparr>, None), eng)
      | Some account \<Rightarrow>
          if \<not> canOpenPosition account symb
          then ((\<lparr>success = False, error = Some ''Cannot open position (limit reached)''\<rparr>, None), eng)
          else
            let (position0, account1, c1) =
                  createPosition now account symb dir sz price
                    (if truthy_opt (opt_leverage options) then the (opt_leverage options)
                     else maxLeverage (config account))
                    (opt_tacticsSet options) (ctx eng);
                position1 = (if truthy_opt (opt_stopLoss options)
                             then position0\<lparr>stopLoss := opt_stopLoss options\<rparr> else position0);
                position2 = (if truthy_opt (opt_takeProfit options)
                             then position1\<lparr>takeProfitTargets :=
                                    [\<lparr>tp_index = 1, tp_price = the (opt_takeProfit options),
                                      closePercent = Fin 100, filled = False, filledAt = None\<rparr>]\<rparr>
                             else position1);
                account2 = account1\<lparr>positions := positions account1 @ [position2]\<rparr>;
                (account3, c3) = updateAccountMetrics now account2 c1;
                (account4, c4) = recordEquityPoint now account3 c3;
                c5 = emitEvent POSITION_OPENED now accountId c4
            in ((\<lparr>success = True, error = None\<rparr>, Some position2),
                \<lparr>accounts = map_set accountId account4 (accounts eng), ctx = c5\<rparr>))"


section \<open>Strategy manager\<close>

text \<open>
  The manager keeps its strategies in a \<open>Map\<close> by id. A running strategy refers to its
  strategy object; the model keeps the id under which the object is registered.
  \<open>validateStrategyParameters\<close> and the built-in strategy classes are imported from
  \<open>./types\<close> and \<open>./builtin\<close>: the validator is the argument \<open>validate\<close>,
  returning \<open>valid\<close> and \<open>errors\<close>, and \<open>BUILTIN_STRATEGIES\<close> is the list of
  what each constructor call yields, a strategy or a thrown value.
\<close>

datatype strategy_status = ST_IDLE | ST_RUNNING | ST_PAUSED | ST_ERROR

record RunningStrategy =
  rs_id :: string
  rs_strategy :: string
  rs_symbol :: string
  rs_timeframe :: string
  rs_status :: strategy_status
  lastSignal :: "StrategySignal option"
  rs_lastUpdate :: nat
  rs_error :: "string option"

record StrategyManager =
  strategies :: "string \<Rightarrow> IStrategy option"
  runningStrategies :: "string \<Rightarrow> RunningStrategy option"
  candleCache :: "string \<Rightarrow> Candle list option"

record StrategyAnalysisResult =
  ar_strategyId :: string
  ar_symbol :: string
  ar_timeframe :: string
  ar_timestamp :: nat
  ar_currentPrice :: jsnum
  ar_indicators :: StrategyIndicators
  ar_signal :: "StrategySignal option"
  ar_errors :: "string list option"

definition register :: "IStrategy \<Rightarrow> StrategyManager \<Rightarrow> StrategyManager" where
  "register strategy mgr =
     mgr\<lparr>strategies := (strategies mgr)(strat_id (getConfig strategy) \<mapsto> strategy)\<rparr>"


fun registerBuiltInStrategies :: "(js_thrown + IStrategy) list \<Rightarrow> StrategyManager \<Rightarrow> StrategyManager" where
  "registerBuiltInStrategies [] mgr = mgr"
| "registerBuiltInStrategies (Inl e # rest) mgr = registerBuiltInStrategies rest mgr"
| "registerBuiltInStrategies (Inr strategy # rest) mgr =
     registerBuiltInStrategies rest (register strategy mgr)"

definition new_StrategyManager :: "(js_thrown + IStrategy) list \<Rightarrow> StrategyManager" where
  "new_StrategyManager BUILTIN_STRATEGIES =
     registerBuiltInStrategies BUILTIN_STRATEGIES
       \<lparr>strategies = Map.empty, runningStrategies = Map.empty, candleCache = Map.empty\<rparr>"

text \<open>\<open>errors.join("; ")\<close>\<close>

fun join_errors :: "string list \<Rightarrow> string" where
  "join_errors [] = []"
| "join_errors [e] = e"
| "join_errors (e # es) = e @ ''; '' @ join_errors es"

definition StrategyManager_start ::
  "(StrategyConfig \<Rightarrow> (string \<Rightarrow> param_value option) \<Rightarrow> bool \<times> string list) \<Rightarrow> nat
     \<Rightarrow> string \<Rightarrow> string \<Rightarrow> string \<Rightarrow> (string \<Rightarrow> param_value option) option
     \<Rightarrow> StrategyManager \<Rightarrow> op_result \<times> StrategyManager" where
  "StrategyManager_start validate now sid symb timeframe params mgr =
     (case strategies mgr sid of
        None \<Rightarrow> (\<lparr>success = False, error = Some (''Strategy '' @ sid @ '' not found'')\<rparr>, mgr)
      | Some strategy \<Rightarrow>
          let cfg = getConfig strategy;
              validation = (case params of None \<Rightarrow> (True, [])
                            | Some ps \<Rightarrow> validate cfg ps)
          in if \<not> fst validation
             then (\<lparr>success = False, error = Some (join_errors (snd validation))\<rparr>, mgr)
             else
               let strategy' = strategy\<lparr>getState := initialize strategy params (getState strategy)\<rparr>;
                   runningId = sid @ ''_'' @ symb @ ''_'' @ timeframe;
                   running = \<lparr>rs_id = runningId, rs_strategy = sid, rs_symbol = symb,
                              rs_timeframe = timeframe, rs_status = ST_IDLE, lastSignal = None,
                              rs_lastUpdate = now, rs_error = None\<rparr>
               in (\<lparr>success = True, error = None\<rparr>,
                   mgr\<lparr>strategies := (strategies mgr)(sid \<mapsto> strategy'),
                       runningStrategies := (runningStrategies mgr)(runningId \<mapsto> running)\<rparr>))"

definition StrategyManager_stop :: "string \<Rightarrow> StrategyManager \<Rightarrow> StrategyManager" where
  "StrategyManager_stop runningId mgr =
     mgr\<lparr>runningStrategies := (runningStrategies mgr)(runningId := None)\<rparr>"

text \<open>Decimal rendering of a number in a template string.\<close>

function show_nat :: "nat \<Rightarrow> string" where
  "show_nat n =
     (if n < 10 then [char_of (48 + n)] else show_nat (n div 10) @ [char_of (48 + n mod 10)])"
  by pat_completeness auto
termination
  by (relation "measure id") auto

text \<open>\<open>state.parameters.timeframe as Timeframe || config.defaultTimeframe\<close>: the parameter
  when it is a non-empty string. (A truthy parameter that is no string is not a time frame
  and is not modelled.)\<close>

definition timeframe_of :: "StrategyState \<Rightarrow> StrategyConfig \<Rightarrow> string" where
  "timeframe_of st cfg =
     (case parameters st ''timeframe'' of
        Some (PStr s) \<Rightarrow> if s = [] then defaultTimeframe cfg else s
      | _ \<Rightarrow> defaultTimeframe cfg)"

text \<open>\<open>candles[candles.length - 1]?.close || 0\<close>\<close>

definition last_close_or_0 :: "Candle list \<Rightarrow> jsnum" where
  "last_close_or_0 candles =
     (if candles = [] then Fin 0
      else if truthy (close (last candles)) then close (last candles) else Fin 0)"

text \<open>The \<open>TypeError\<close> of reading \<open>close\<close> of \<open>undefined\<close>, when \<open>candles\<close> is
  empty (the text of its message depends on the JavaScript engine).\<close>

definition TypeError_close :: js_thrown where
  "TypeError_close = ErrorObject ''Cannot read properties of undefined (reading close)''"

definition thrown_message :: "js_thrown \<Rightarrow> string" where
  "thrown_message e = (case e of ErrorObject m \<Rightarrow> m | NonError \<Rightarrow> ''Unknown error'')"

text \<open>The \<open>try\<close> block of \<open>analyze\<close>: \<open>Inl\<close> is a throw out of the block.\<close>

definition analyze_try ::
  "nat \<Rightarrow> IStrategy \<Rightarrow> string \<Rightarrow> string \<Rightarrow> Candle list \<Rightarrow> js_thrown + StrategyAnalysisResult" where
  "analyze_try now strategy sid symb candles =
     (let cfg = getConfig strategy; st = getState strategy
      in if length candles < minCandlesRequired cfg
         then Inr \<lparr>ar_strategyId = sid, ar_symbol = symb, ar_timeframe = timeframe_of st cfg,
                   ar_timestamp = now, ar_currentPrice = last_close_or_0 candles,
                   ar_indicators = [], ar_signal = None,
                   ar_errors = Some [''Insufficient candles: '' @ show_nat (length candles)
                                      @ '' < '' @ show_nat (minCandlesRequired cfg)]\<rparr>
         else
           (case populateIndicators strategy st candles of
              Inl e \<Rightarrow> Inl e
            | Inr indicators \<Rightarrow>
                if candles = [] then Inl TypeError_close
                else
                  (case populateEntrySignal strategy st candles indicators (close (last candles)) of
                     Inl e \<Rightarrow> Inl e
                   | Inr signal \<Rightarrow>
                       Inr \<lparr>ar_strategyId = sid, ar_symbol = symb,
                            ar_timeframe = timeframe_of st cfg, ar_timestamp = now,
                            ar_currentPrice = close (last candles), ar_indicators = indicators,
                            ar_signal = map_option (\<lambda>sg. sg\<lparr>sig_symbol := symb\<rparr>) signal,
                            ar_errors = None\<rparr>)))"

text \<open>\<open>analyze\<close>: \<open>Inl\<close> would be an exception leaving the method (a rejected promise).\<close>

definition analyze ::
  "nat \<Rightarrow> StrategyManager \<Rightarrow> string \<Rightarrow> string \<Rightarrow> Candle list \<Rightarrow> js_thrown + StrategyAnalysisResult" where
  "analyze now mgr sid symb candles =
     (case strategies mgr sid of
        None \<Rightarrow>
          Inr \<lparr>ar_strategyId = sid, ar_symbol = symb, ar_timeframe = ''1h'', ar_timestamp = now,
               ar_currentPrice = Fin 0, ar_indicators = [], ar_signal = None,
               ar_errors = Some [''Strategy '' @ sid @ '' not found'']\<rparr>
      | Some strategy \<Rightarrow>
          (case analyze_try now strategy sid symb candles of
             Inr r \<Rightarrow> Inr r
           | Inl e \<Rightarrow>
               Inr \<lparr>ar_strategyId = sid, ar_symbol = symb,
                    ar_timeframe = defaultTimeframe (getConfig strategy), ar_timestamp = now,
                    ar_currentPrice = last_close_or_0 candles, ar_indicators = [],
                    ar_signal = None, ar_errors = Some [thrown_message e]\<rparr>))"

definition checkExit_try ::
  "IStrategy \<Rightarrow> Candle list \<Rightarrow> position_view \<Rightarrow> js_thrown + StrategySignal option" where
  "checkExit_try strategy candles position =
     (case populateIndicators strategy (getState strategy) candles of
        Inl e \<Rightarrow> Inl e
      | Inr indicators \<Rightarrow> populateExitSignal strategy (getState strategy) candles indicators position)"

text \<open>\<open>checkExit\<close>, with the lines its \<open>catch\<close> writes to the console.\<close>

definition checkExit ::
  "StrategyManager \<Rightarrow> string \<Rightarrow> Candle list \<Rightarrow> position_view
     \<Rightarrow> (js_thrown + StrategySignal option) \<times> string list" where
  "checkExit mgr sid candles position =
     (case strategies mgr sid of
        None \<Rightarrow> (Inr None, [])
      | Some strategy \<Rightarrow>
          (case checkExit_try strategy candles position of
             Inr r \<Rightarrow> (Inr r, [])
           | Inl e \<Rightarrow> (Inr None, [''Exit check error for '' @ sid @ '':''])))"

subsection \<open>Singleton instance\<close>

text \<open>
  The module variable \<open>strategyManagerInstance\<close> holds \<open>null\<close> or a reference to a
  manager object. Objects live in a store, from references to objects; \<open>new\<close> takes the
  next free reference. The variable is private to the module: other code reaches the
  manager through the reference, and can change the object but not the variable.
\<close>

record module_state =
  strategyManagerInstance :: "nat option"
  store :: "nat \<Rightarrow> StrategyManager option"
  next_ref :: nat

definition initial_module_state :: module_state where
  "initial_module_state = \<lparr>strategyManagerInstance = None, store = Map.empty, next_ref = 0\<rparr>"

definition getStrategyManager ::
  "(js_thrown + IStrategy) list \<Rightarrow> module_state \<Rightarrow> nat \<times> module_state" where
  "getStrategyManager BUILTIN_STRATEGIES ms =
     (case strategyManagerInstance ms of
        None \<Rightarrow>
          let r = next_ref ms
          in (r, ms\<lparr>strategyManagerInstance := Some r,
                    store := (store ms)(r \<mapsto> new_StrategyManager BUILTIN_STRATEGIES),
                    next_ref := r + 1\<rparr>)
      | Some r \<Rightarrow> (r, ms))"

text \<open>A process, as far as the module sees it: calls of \<open>getStrategyManager\<close>, and other
  code that changes the object behind a reference it holds.\<close>

datatype process_step = CallGetStrategyManager | Mutate nat "StrategyManager \<Rightarrow> StrategyManager"

fun run_process ::
  "(js_thrown + IStrategy) list \<Rightarrow> process_step list \<Rightarrow> module_state \<Rightarrow> nat list \<times> module_state" where
  "run_process B [] ms = ([], ms)"
| "run_process B (CallGetStrategyManager # steps) ms =
     (fst (getStrategyManager B ms) # fst (run_process B steps (snd (getStrategyManager B ms))),
      snd (run_process B steps (snd (getStrategyManager B ms))))"
| "run_process B (Mutate r f # steps) ms =
     run_process B steps
       (ms\<lparr>store := (case store ms r of None \<Rightarrow> store ms
                      | Some m \<Rightarrow> (store ms)(r \<mapsto> f m))\<rparr>)"

section \<open>Paper trading engine: strategy signals\<close>






text \<open>\<open>closeAllPositions\<close>, with \<open>prices[symbol] || position.currentPrice\<close>.\<close>

definition close_price :: "(string \<Rightarrow> jsnum option) \<Rightarrow> PaperPosition \<Rightarrow> jsnum" where
  "close_price prices position =
     (if truthy_opt (prices (symbol position)) then the (prices (symbol position))
      else currentPrice position)"

fun closePositions ::
  "nat \<Rightarrow> (string \<Rightarrow> jsnum option) \<Rightarrow> nat list \<Rightarrow> PaperAccount \<Rightarrow> engine_ctx
     \<Rightarrow> PaperTrade list \<times> PaperAccount \<times> engine_ctx" where
  "closePositions now prices [] account c = ([], account, c)"
| "closePositions now prices (i # rest) account c =
     (if status (positions account ! i) = OPEN
      then
        ((case fst (closePosition now i (close_price prices (positions account ! i)) MANUAL
                      account c) of
            None \<Rightarrow> [] | Some t \<Rightarrow> [t])
           @ fst (closePositions now prices rest
                    (fst (snd (closePosition now i (close_price prices (positions account ! i))
                                 MANUAL account c)))
                    (snd (snd (closePosition now i (close_price prices (positions account ! i))
                                 MANUAL account c)))),
         snd (closePositions now prices rest
                (fst (snd (closePosition now i (close_price prices (positions account ! i))
                             MANUAL account c)))
                (snd (snd (closePosition now i (close_price prices (positions account ! i))
                             MANUAL account c)))))
      else closePositions now prices rest account c)"

definition closeAllPositions ::
  "nat \<Rightarrow> string \<Rightarrow> (string \<Rightarrow> jsnum option) \<Rightarrow> PaperTradingEngine
     \<Rightarrow> PaperTrade list \<times> PaperTradingEngine" where
  "closeAllPositions now accountId prices eng =
     (case getAccount eng accountId of
        None \<Rightarrow> ([], eng)
      | Some account \<Rightarrow>
          (case closePositions now prices [0..<length (positions account)] account (ctx eng) of
             (trades, account', c') \<Rightarrow>
               (trades, \<lparr>accounts = map_set accountId account' (accounts eng), ctx = c'\<rparr>)))"

section \<open>The claimed MACD\<close>

text \<open>
  The MACD as the built-in \<open>macd\<close> definition declares it (\<open>macd = fastMA - slowMA\<close>
  with \<open>slowMA = ta.ema(close, slowLength)\<close>, \<open>signal = ta.ema(macd, signalLength)\<close>,
  \<open>hist = macd - signal\<close>), over the helpers of the calculator: the slow average is taken
  over \<open>slowLength\<close>.
\<close>

definition macd_claimed ::
  "jsnum list \<Rightarrow> nat \<Rightarrow> nat \<Rightarrow> nat \<Rightarrow> jsnum option list \<times> jsnum option list \<times> jsnum option list" where
  "macd_claimed closes fastLength slowLength signalLength =
     (let macdLine = map (minus_values (ema closes fastLength) (ema closes slowLength))
                       [0..<length closes];
          signalEma = ema (map the (filter (\<lambda>v. v \<noteq> None) macdLine)) signalLength;
          signalLine = map_signal macdLine signalEma 0;
          histogramValues = map (minus_values macdLine signalLine) [0..<length closes]
      in (macdLine, signalLine, histogramValues))"

section \<open>Concrete inputs\<close>

text \<open>A candle whose four prices are \<open>c\<close>, at time \<open>t\<close>, with volume 1.\<close>

definition flat_candle :: "nat \<Rightarrow> real \<Rightarrow> Candle" where
  "flat_candle t c =
     \<lparr>time = t, open_c = Fin c, high = Fin c, low = Fin c, close = Fin c, volume = Fin 1\<rparr>"

definition four_candles :: "Candle list" where
  "four_candles = [flat_candle 0 1, flat_candle 1 2, flat_candle 2 4, flat_candle 3 8]"

definition macd_inputs_1_3_2 :: indicator_inputs where
  "macd_inputs_1_3_2 =
     \<lparr>in_length = 1, in_mult = Fin 2, in_fastLength = 1, in_slowLength = 3, in_signalLength = 2\<rparr>"










text \<open>
  A strategy whose \<open>populateIndicators\<close> throws an \<open>Error\<close> with the message
  \<open>boom\<close>, one whose \<open>populateEntrySignal\<close> throws a value that is no \<open>Error\<close>, a
  manager with both, a validator that rejects every parameter record with two errors, and
  one that accepts every record.
\<close>

definition base_strategy :: "string \<Rightarrow> IStrategy" where
  "base_strategy sid =
     \<lparr>getConfig = \<lparr>strat_id = sid, minCandlesRequired = 1, defaultTimeframe = ''1h''\<rparr>,
      getState = \<lparr>parameters = Map.empty\<rparr>,
      initialize = (\<lambda>ps st. st\<lparr>parameters := (case ps of None \<Rightarrow> Map.empty | Some p \<Rightarrow> p)\<rparr>),
      populateIndicators = (\<lambda>st candles. Inr []),
      populateEntrySignal = (\<lambda>st candles indicators price. Inr None),
      populateExitSignal = (\<lambda>st candles indicators position. Inr None)\<rparr>"

definition throwing_indicators :: IStrategy where
  "throwing_indicators =
     (base_strategy ''bad-indicators'')
       \<lparr>populateIndicators := (\<lambda>st candles. Inl (ErrorObject ''boom''))\<rparr>"

definition throwing_entry :: IStrategy where
  "throwing_entry =
     (base_strategy ''bad-entry'')
       \<lparr>populateEntrySignal := (\<lambda>st candles indicators price. Inl NonError)\<rparr>"

definition throwing_manager :: StrategyManager where
  "throwing_manager = new_StrategyManager [Inr throwing_indicators, Inr throwing_entry]"

definition reject_all :: "StrategyConfig \<Rightarrow> (string \<Rightarrow> param_value option) \<Rightarrow> bool \<times> string list" where
  "reject_all cfg ps = (False, [''period is required'', ''period must be a number''])"

definition accept_all :: "StrategyConfig \<Rightarrow> (string \<Rightarrow> param_value option) \<Rightarrow> bool \<times> string list" where
  "accept_all cfg ps = (True, [])"

definition long_view :: position_view where
  "long_view =
     \<lparr>pv_direction = LONG, pv_entryPrice = Fin 1, pv_currentPrice = Fin 2, pv_size = Fin 1,
      pv_openTime = 0\<rparr>"

text \<open>A manager with one well-behaved strategy, and a parameter record.\<close>

definition one_strategy_manager :: StrategyManager where
  "one_strategy_manager = new_StrategyManager [Inr (base_strategy ''rsi-reversal'')]"

definition some_parameters :: "string \<Rightarrow> param_value option" where
  "some_parameters = [''period'' \<mapsto> PStr ''abc'']"

text \<open>Two calls of the accessor, and a registration through the reference in between.\<close>

definition three_steps :: "process_step list" where
  "three_steps =
     [CallGetStrategyManager, Mutate 0 (register (base_strategy ''extra'')),
      CallGetStrategyManager]"

text \<open>
  A paper trading account of 1000 with no tactics, risking 10 percent per trade at leverage
  1 without fees, an engine with nothing in it, a strategy that always signals a long
  entry, and the manager that holds it.
\<close>

definition paper_config :: PaperTradingConfig where
  "paper_config =
     \<lparr>cfg_id = ''acc'', cfg_name = ''Account'', cfg_initialBalance = Fin 1000,
      strategyId = ''go-long'', tacticsSets = [], maxRiskPerTrade = Fin 10,
      cfg_maxDrawdown = Fin 20, maxOpenPositions = Fin 3, maxLeverage = Fin 1,
      feePercent = Fin 0, autoTrading = True\<rparr>"

definition empty_engine :: PaperTradingEngine where
  "empty_engine =
     \<lparr>accounts = [],
      ctx = \<lparr>eventLog = [], positionIdCounter = 0, lastEquityRecordTime = Map.empty\<rparr>\<rparr>"







text \<open>An account with one long position opened at 100, whose stop stands at 110 and whose
  take-profit target stands at 105: a tick at 107 hits both.\<close>

definition long_account :: PaperAccount where
  "long_account =
     the (getAccount
            (snd (openPosition 0 ''acc'' ''BTCUSDT'' LONG (Fin 1) (Fin 100)
                    \<lparr>opt_stopLoss = Some (Fin 110), opt_takeProfit = Some (Fin 105),
                     opt_leverage = None, opt_tacticsSet = None\<rparr>
                    (snd (createAccount 0 paper_config empty_engine))))
            ''acc'')"

definition engine_ctx_0 :: engine_ctx where
  "engine_ctx_0 = \<lparr>eventLog = [], positionIdCounter = 1, lastEquityRecordTime = Map.empty\<rparr>"

section \<open>Facts about JavaScript numbers\<close>

lemma Fin_plus [simp]: "Fin a + Fin b = Fin (a + b)"
  by (simp add: plus_jsnum_def)

lemma Fin_minus [simp]: "Fin a - Fin b = Fin (a - b)"
  by (simp add: minus_jsnum_def)

lemma Fin_uminus [simp]: "- Fin a = Fin (- a)"
  by (simp add: uminus_jsnum_def)

lemma Fin_times [simp]: "Fin a * Fin b = Fin (a * b)"
  by (simp add: times_jsnum_def)

lemma Fin_divide [simp]: "b \<noteq> 0 \<Longrightarrow> Fin a / Fin b = Fin (a / b)"
  by (simp add: divide_jsnum_def)

lemma Fin_divide_zero [simp]:
  "Fin a / Fin 0 = (if a = 0 then NaN else if 0 < a then PInf else NInf)"
  by (simp add: divide_jsnum_def)

lemma Fin_less [simp]: "(Fin a < Fin b) = (a < b)"
  by (simp add: less_jsnum_def)

lemma Fin_le [simp]: "(Fin a \<le> Fin b) = (a \<le> b)"
  by (auto simp: less_eq_jsnum_def)

lemma NaN_plus [simp]: "NaN + x = NaN" "x + NaN = NaN"
  by (cases x; simp add: plus_jsnum_def)+

lemma NaN_minus [simp]: "NaN - x = NaN" "x - NaN = NaN"
  by (cases x; simp add: minus_jsnum_def)+

lemma NaN_times [simp]: "NaN * x = NaN" "x * NaN = NaN"
  by (cases x; simp add: times_jsnum_def)+

lemma NaN_divide [simp]: "NaN / x = NaN" "x / NaN = NaN"
  by (cases x; simp add: divide_jsnum_def)+

lemma NaN_less [simp]: "\<not> NaN < x" "\<not> x < NaN"
  by (cases x; simp add: less_jsnum_def)+

lemma NaN_le [simp]: "\<not> NaN \<le> x" "\<not> x \<le> NaN"
  by (cases x; simp add: less_eq_jsnum_def)+

lemma jseq_Fin [simp]: "jseq (Fin a) (Fin b) = (a = b)"
  by simp

section \<open>Indicator calculator: MACD\<close>

text \<open>What \<open>calculateMACD\<close> computes: the claimed MACD with \<open>signalLength\<close> in the
  place of \<open>slowLength\<close>. The input \<open>slowLength\<close> is never read.\<close>

lemma macd_values_is_claimed_at_signalLength:
  "macd_values candles inputs =
     macd_claimed (map close candles) (in_fastLength inputs) (in_signalLength inputs)
       (in_signalLength inputs)"
  by (simp add: macd_values_def macd_claimed_def Let_def)

lemma macd_values_ignores_slowLength:
  "macd_values candles (inputs\<lparr>in_slowLength := n\<rparr>) = macd_values candles inputs"
  by (simp add: macd_values_def Let_def)

text \<open>
  C1. The claim: the MACD line of \<open>calculateMACD\<close> is \<open>EMA(closes, fastLength)\<close> minus
  \<open>EMA(closes, slowLength)\<close>. On the closes 1, 2, 4, 8 with \<open>fastLength = 1\<close>,
  \<open>slowLength = 3\<close>, \<open>signalLength = 2\<close> the code's MACD line is
  \<open>null, 1/2, 5/6, 29/18\<close> (the fast average minus the average over \<open>signalLength\<close>),
  where the claimed one is \<open>null, null, 5/3, 17/6\<close>; the lines of the result differ
  accordingly.
\<close>

theorem calculateMACD_slow_average_over_signalLength:
  "fst (macd_values four_candles macd_inputs_1_3_2)
     = [None, Some (Fin (1 / 2)), Some (Fin (5 / 6)), Some (Fin (29 / 18))]
   \<and> fst (macd_claimed (map close four_candles) 1 3 2)
     = [None, None, Some (Fin (5 / 3)), Some (Fin (17 / 6))]
   \<and> series_data (lines (calculateMACD four_candles macd_inputs_1_3_2) ! 0)
     = [WhitespaceData 0, LineData 1 (Fin (1 / 2)), LineData 2 (Fin (5 / 6)),
        LineData 3 (Fin (29 / 18))]"
  by code_simp

section \<open>Indicator calculator: RSI\<close>










section \<open>Market forecast: the probabilities sum to one\<close>












section \<open>Indicator calculator: series and candles\<close>

lemma plottable_Some [simp]: "plottable v \<Longrightarrow> Some (the v) = v"
  by (cases v) (simp_all add: plottable_def)









section \<open>Indicator calculator: determinism\<close>



section \<open>Strategy manager: errors of the strategy\<close>

lemma analyze_never_throws: "\<exists>r. analyze now mgr sid symb candles = Inr r"
  by (simp add: analyze_def split: option.splits sum.splits)

lemma checkExit_never_throws: "\<exists>x. fst (checkExit mgr sid candles position) = Inr x"
  by (simp add: checkExit_def split: option.splits sum.splits)

lemma analyze_catch:
  assumes "strategies mgr sid = Some strategy"
    and "analyze_try now strategy sid symb candles = Inl e"
  shows "\<exists>r. analyze now mgr sid symb candles = Inr r \<and> ar_signal r = None
             \<and> ar_errors r = Some [thrown_message e]"
  using assms by (simp add: analyze_def)

text \<open>
  C4. For every registered strategy and every candle list on which the strategy is called
  (at least \<open>minCandlesRequired\<close> candles): if \<open>populateIndicators\<close> throws, or it
  returns and \<open>populateEntrySignal\<close> throws, \<open>analyze\<close> does not throw; it returns a
  result whose signal is null and whose errors list holds the message of the thrown error
  (the message of an \<open>Error\<close> object; \<open>Unknown error\<close> for a thrown value that is no
  \<open>Error\<close>). If \<open>populateIndicators\<close> (or \<open>populateExitSignal\<close>) throws inside
  \<open>checkExit\<close>, it returns null. Neither method ever throws.
\<close>

theorem analyze_and_checkExit_catch_strategy_errors:
  assumes "strategies mgr sid = Some strategy"
  shows "(minCandlesRequired (getConfig strategy) \<le> length candles
            \<longrightarrow> populateIndicators strategy (getState strategy) candles = Inl e
            \<longrightarrow> (\<exists>r. analyze now mgr sid symb candles = Inr r \<and> ar_signal r = None
                       \<and> ar_errors r = Some [thrown_message e]))
         \<and> (minCandlesRequired (getConfig strategy) \<le> length candles \<longrightarrow> candles \<noteq> []
            \<longrightarrow> populateIndicators strategy (getState strategy) candles = Inr indicators
            \<longrightarrow> populateEntrySignal strategy (getState strategy) candles indicators
                  (close (last candles)) = Inl e
            \<longrightarrow> (\<exists>r. analyze now mgr sid symb candles = Inr r \<and> ar_signal r = None
                       \<and> ar_errors r = Some [thrown_message e]))
         \<and> thrown_message (ErrorObject m) = m
         \<and> (checkExit_try strategy candles position = Inl e
            \<longrightarrow> fst (checkExit mgr sid candles position) = Inr None)
         \<and> (\<exists>r. analyze now mgr sid symb candles = Inr r)
         \<and> (\<exists>x. fst (checkExit mgr sid candles position) = Inr x)"
proof (intro conjI impI)
  assume "minCandlesRequired (getConfig strategy) \<le> length candles"
    and "populateIndicators strategy (getState strategy) candles = Inl e"
  then have "analyze_try now strategy sid symb candles = Inl e"
    by (simp add: analyze_try_def Let_def)
  then show "\<exists>r. analyze now mgr sid symb candles = Inr r \<and> ar_signal r = None
      \<and> ar_errors r = Some [thrown_message e]"
    by (rule analyze_catch[OF assms])
next
  assume "minCandlesRequired (getConfig strategy) \<le> length candles" "candles \<noteq> []"
    and "populateIndicators strategy (getState strategy) candles = Inr indicators"
    and "populateEntrySignal strategy (getState strategy) candles indicators
           (close (last candles)) = Inl e"
  then have "analyze_try now strategy sid symb candles = Inl e"
    by (simp add: analyze_try_def Let_def)
  then show "\<exists>r. analyze now mgr sid symb candles = Inr r \<and> ar_signal r = None
      \<and> ar_errors r = Some [thrown_message e]"
    by (rule analyze_catch[OF assms])
next
  show "thrown_message (ErrorObject m) = m" by (simp add: thrown_message_def)
next
  assume "checkExit_try strategy candles position = Inl e"
  then show "fst (checkExit mgr sid candles position) = Inr None"
    using assms by (simp add: checkExit_def)
next
  show "\<exists>r. analyze now mgr sid symb candles = Inr r" by (rule analyze_never_throws)
next
  show "\<exists>x. fst (checkExit mgr sid candles position) = Inr x" by (rule checkExit_never_throws)
qed

lemma throwing_manager_strategies:
  "strategies throwing_manager ''bad-indicators'' = Some throwing_indicators"
  "strategies throwing_manager ''bad-entry'' = Some throwing_entry"
  by (simp_all add: throwing_manager_def new_StrategyManager_def register_def
      throwing_indicators_def throwing_entry_def base_strategy_def)

text \<open>The theorem at a manager with two throwing strategies, on four candles.\<close>

theorem analyze_and_checkExit_catch_strategy_errors_witness:
  "strategies throwing_manager ''bad-indicators'' = Some throwing_indicators
   \<and> minCandlesRequired (getConfig throwing_indicators) \<le> length four_candles
   \<and> populateIndicators throwing_indicators (getState throwing_indicators) four_candles
       = Inl (ErrorObject ''boom'')
   \<and> analyze 7 throwing_manager ''bad-indicators'' ''BTCUSDT'' four_candles
       = Inr \<lparr>ar_strategyId = ''bad-indicators'', ar_symbol = ''BTCUSDT'', ar_timeframe = ''1h'',
              ar_timestamp = 7, ar_currentPrice = Fin 8, ar_indicators = [], ar_signal = None,
              ar_errors = Some [''boom'']\<rparr>
   \<and> analyze 7 throwing_manager ''bad-entry'' ''BTCUSDT'' four_candles
       = Inr \<lparr>ar_strategyId = ''bad-entry'', ar_symbol = ''BTCUSDT'', ar_timeframe = ''1h'',
              ar_timestamp = 7, ar_currentPrice = Fin 8, ar_indicators = [], ar_signal = None,
              ar_errors = Some [''Unknown error'']\<rparr>
   \<and> fst (checkExit throwing_manager ''bad-indicators'' four_candles long_view) = Inr None"
proof -
  have h1: "strategies throwing_manager ''bad-indicators'' = Some throwing_indicators"
    by (rule throwing_manager_strategies)
  have h2: "minCandlesRequired (getConfig throwing_indicators) \<le> length four_candles"
    by (simp add: throwing_indicators_def base_strategy_def four_candles_def)
  have h3: "populateIndicators throwing_indicators (getState throwing_indicators) four_candles
       = Inl (ErrorObject ''boom'')"
    by (simp add: throwing_indicators_def)
  have h4: "checkExit_try throwing_indicators four_candles long_view = Inl (ErrorObject ''boom'')"
    by (simp add: checkExit_try_def h3)
  note t = analyze_and_checkExit_catch_strategy_errors[OF h1, of four_candles
      "ErrorObject ''boom''" 7 "''BTCUSDT''" _ _ long_view]
  have a1: "analyze 7 throwing_manager ''bad-indicators'' ''BTCUSDT'' four_candles
       = Inr \<lparr>ar_strategyId = ''bad-indicators'', ar_symbol = ''BTCUSDT'', ar_timeframe = ''1h'',
              ar_timestamp = 7, ar_currentPrice = Fin 8, ar_indicators = [], ar_signal = None,
              ar_errors = Some [''boom'']\<rparr>"
    by (simp add: analyze_def h1 analyze_try_def Let_def h3 thrown_message_def last_close_or_0_def
        throwing_indicators_def base_strategy_def four_candles_def flat_candle_def)
  have a2: "analyze 7 throwing_manager ''bad-entry'' ''BTCUSDT'' four_candles
       = Inr \<lparr>ar_strategyId = ''bad-entry'', ar_symbol = ''BTCUSDT'', ar_timeframe = ''1h'',
              ar_timestamp = 7, ar_currentPrice = Fin 8, ar_indicators = [], ar_signal = None,
              ar_errors = Some [''Unknown error'']\<rparr>"
    by (simp add: analyze_def throwing_manager_strategies analyze_try_def Let_def
        thrown_message_def last_close_or_0_def throwing_entry_def base_strategy_def
        four_candles_def flat_candle_def)
  have c: "fst (checkExit throwing_manager ''bad-indicators'' four_candles long_view) = Inr None"
    using t h4 by blast
  show ?thesis using h1 h2 h3 a1 a2 c by blast
qed

section \<open>Strategy manager: start\<close>

text \<open>
  C5. \<open>start\<close> called with an id that is not registered, or with a parameters record
  that \<open>validateStrategyParameters\<close> rejects for the strategy's config, returns
  \<open>success: false\<close> with an error message (\<open>Strategy <id> not found\<close>, or the
  validator's errors joined by \<open>; \<close>) and the manager as it was: the strategy is not
  initialised and the running strategies are unchanged.
\<close>

theorem start_rejects_without_mutation:
  "(strategies mgr sid = None
      \<longrightarrow> StrategyManager_start validate now sid symb timeframe params mgr
            = (\<lparr>success = False, error = Some (''Strategy '' @ sid @ '' not found'')\<rparr>, mgr))
   \<and> (strategies mgr sid = Some strategy \<longrightarrow> params = Some ps
      \<longrightarrow> validate (getConfig strategy) ps = (False, errs)
      \<longrightarrow> StrategyManager_start validate now sid symb timeframe params mgr
            = (\<lparr>success = False, error = Some (join_errors errs)\<rparr>, mgr))"
  by (simp add: StrategyManager_start_def Let_def)

lemma one_strategy_manager_strategies:
  "strategies one_strategy_manager ''rsi-reversal'' = Some (base_strategy ''rsi-reversal'')"
  "strategies one_strategy_manager ''unknown'' = None"
  by (simp_all add: one_strategy_manager_def new_StrategyManager_def register_def
      base_strategy_def)

text \<open>The theorem at a manager with one strategy: an unknown id, and a rejected record.\<close>

theorem start_rejects_without_mutation_witness:
  "strategies one_strategy_manager ''unknown'' = None
   \<and> StrategyManager_start reject_all 5 ''unknown'' ''BTCUSDT'' ''1h'' None one_strategy_manager
       = (\<lparr>success = False, error = Some ''Strategy unknown not found''\<rparr>, one_strategy_manager)
   \<and> strategies one_strategy_manager ''rsi-reversal'' = Some (base_strategy ''rsi-reversal'')
   \<and> reject_all (getConfig (base_strategy ''rsi-reversal'')) some_parameters
       = (False, [''period is required'', ''period must be a number''])
   \<and> StrategyManager_start reject_all 5 ''rsi-reversal'' ''BTCUSDT'' ''1h'' (Some some_parameters)
         one_strategy_manager
       = (\<lparr>success = False, error = Some ''period is required; period must be a number''\<rparr>,
          one_strategy_manager)"
proof -
  note h = one_strategy_manager_strategies
  have r: "reject_all (getConfig (base_strategy ''rsi-reversal'')) some_parameters
       = (False, [''period is required'', ''period must be a number''])"
    by (simp add: reject_all_def)
  have a: "StrategyManager_start reject_all 5 ''unknown'' ''BTCUSDT'' ''1h'' None
      one_strategy_manager
       = (\<lparr>success = False, error = Some ''Strategy unknown not found''\<rparr>, one_strategy_manager)"
    using start_rejects_without_mutation[where mgr = one_strategy_manager and sid = "''unknown''"
        and validate = reject_all and now = 5 and symb = "''BTCUSDT''" and timeframe = "''1h''"
        and params = None] h(2)
    by simp
  have b: "StrategyManager_start reject_all 5 ''rsi-reversal'' ''BTCUSDT'' ''1h''
      (Some some_parameters) one_strategy_manager
       = (\<lparr>success = False, error = Some ''period is required; period must be a number''\<rparr>,
          one_strategy_manager)"
    using start_rejects_without_mutation[where mgr = one_strategy_manager
        and sid = "''rsi-reversal''" and validate = reject_all and now = 5
        and symb = "''BTCUSDT''" and timeframe = "''1h''" and params = "Some some_parameters"
        and strategy = "base_strategy ''rsi-reversal''" and ps = some_parameters
        and errs = "[''period is required'', ''period must be a number'']"] h(1) r
    by simp
  show ?thesis using h a b r by blast
qed

text \<open>For contrast: an accepted start initialises the strategy and adds the running entry.\<close>

lemma start_accepted_mutates:
  "StrategyManager_start accept_all 5 ''rsi-reversal'' ''BTCUSDT'' ''1h'' (Some some_parameters)
     one_strategy_manager = (res, mgr')
   \<Longrightarrow> success res \<and> runningStrategies mgr' ''rsi-reversal_BTCUSDT_1h'' \<noteq> None
       \<and> runningStrategies one_strategy_manager ''rsi-reversal_BTCUSDT_1h'' = None
       \<and> map_option (\<lambda>s. parameters (getState s) ''period'') (strategies mgr' ''rsi-reversal'')
           = Some (Some (PStr ''abc''))"
  by (auto simp: StrategyManager_start_def Let_def one_strategy_manager_strategies accept_all_def
      base_strategy_def some_parameters_def one_strategy_manager_def new_StrategyManager_def
      register_def)

section \<open>Strategy manager: the singleton\<close>

text \<open>Once the variable holds a reference, every call returns it; while it holds
  \<open>null\<close>, the first call will return the next free reference.\<close>

lemma run_from_instance:
  "strategyManagerInstance ms = Some r \<Longrightarrow> set (fst (run_process B steps ms)) \<subseteq> {r}"
proof (induction steps arbitrary: ms)
  case Nil
  then show ?case by simp
next
  case (Cons step steps)
  show ?case
  proof (cases step)
    case CallGetStrategyManager
    then show ?thesis using Cons.IH[of ms] Cons.prems by (simp add: getStrategyManager_def)
  next
    case (Mutate a f)
    then show ?thesis using Cons.IH Cons.prems by simp
  qed
qed

lemma run_from_null:
  "strategyManagerInstance ms = None \<Longrightarrow> set (fst (run_process B steps ms)) \<subseteq> {next_ref ms}"
proof (induction steps arbitrary: ms)
  case Nil
  then show ?case by simp
next
  case (Cons step steps)
  show ?case
  proof (cases step)
    case CallGetStrategyManager
    have "strategyManagerInstance (snd (getStrategyManager B ms)) = Some (next_ref ms)"
      using Cons.prems by (simp add: getStrategyManager_def Let_def)
    from run_from_instance[OF this, of B steps] show ?thesis
      using CallGetStrategyManager Cons.prems by (simp add: getStrategyManager_def Let_def)
  next
    case (Mutate a f)
    then show ?thesis using Cons.IH[of "ms\<lparr>store := (case store ms a of None \<Rightarrow> store ms
                      | Some m \<Rightarrow> (store ms)(a \<mapsto> f m))\<rparr>"] Cons.prems by simp
  qed
qed

lemma run_process_one_reference: "\<exists>r. set (fst (run_process B steps ms)) \<subseteq> {r}"
  using run_from_instance run_from_null by (cases "strategyManagerInstance ms") blast+

text \<open>
  C7. In every run of a process, from any state of the module, all calls of
  \<open>getStrategyManager\<close> return the same reference, whatever other code does to the
  manager in between. The first call, finding \<open>null\<close>, creates the manager and stores
  its reference; a call after a call returns the same reference and changes nothing.
\<close>

theorem getStrategyManager_singleton:
  "(\<forall>r1 \<in> set (fst (run_process B steps ms)).
      \<forall>r2 \<in> set (fst (run_process B steps ms)). r1 = r2)
   \<and> (strategyManagerInstance ms = None
      \<longrightarrow> fst (getStrategyManager B ms) = next_ref ms
          \<and> strategyManagerInstance (snd (getStrategyManager B ms)) = Some (next_ref ms)
          \<and> store (snd (getStrategyManager B ms)) (next_ref ms) = Some (new_StrategyManager B))
   \<and> fst (getStrategyManager B (snd (getStrategyManager B ms))) = fst (getStrategyManager B ms)
   \<and> snd (getStrategyManager B (snd (getStrategyManager B ms))) = snd (getStrategyManager B ms)"
proof (intro conjI)
  from run_process_one_reference[of B steps ms]
  show "\<forall>r1 \<in> set (fst (run_process B steps ms)).
      \<forall>r2 \<in> set (fst (run_process B steps ms)). r1 = r2"
    by blast
next
  show "strategyManagerInstance ms = None
      \<longrightarrow> fst (getStrategyManager B ms) = next_ref ms
          \<and> strategyManagerInstance (snd (getStrategyManager B ms)) = Some (next_ref ms)
          \<and> store (snd (getStrategyManager B ms)) (next_ref ms) = Some (new_StrategyManager B)"
    by (simp add: getStrategyManager_def Let_def)
next
  show "fst (getStrategyManager B (snd (getStrategyManager B ms))) = fst (getStrategyManager B ms)"
    by (cases "strategyManagerInstance ms") (simp_all add: getStrategyManager_def Let_def)
next
  show "snd (getStrategyManager B (snd (getStrategyManager B ms))) = snd (getStrategyManager B ms)"
    by (cases "strategyManagerInstance ms") (simp_all add: getStrategyManager_def Let_def)
qed

text \<open>The theorem at a run of two calls with a registration in between.\<close>

theorem getStrategyManager_singleton_witness:
  "fst (run_process [] three_steps initial_module_state) = [0, 0]
   \<and> strategyManagerInstance initial_module_state = None
   \<and> fst (getStrategyManager [] initial_module_state) = 0
   \<and> fst (getStrategyManager [] (snd (getStrategyManager [] initial_module_state))) = 0
   \<and> snd (getStrategyManager [] (snd (getStrategyManager [] initial_module_state)))
       = snd (getStrategyManager [] initial_module_state)
   \<and> map_option (\<lambda>m. strategies m ''extra'' \<noteq> None)
        (store (snd (run_process [] three_steps initial_module_state)) 0) = Some True"
proof -
  have v: "fst (run_process [] three_steps initial_module_state) = [0, 0]"
    by (simp add: three_steps_def initial_module_state_def getStrategyManager_def Let_def)
  have n: "strategyManagerInstance initial_module_state = None"
    "next_ref initial_module_state = 0"
    by (simp_all add: initial_module_state_def)
  have m: "map_option (\<lambda>m. strategies m ''extra'' \<noteq> None)
        (store (snd (run_process [] three_steps initial_module_state)) 0) = Some True"
    by (simp add: three_steps_def initial_module_state_def getStrategyManager_def Let_def
        register_def base_strategy_def)
  note t = getStrategyManager_singleton[of "[]" three_steps initial_module_state]
  show ?thesis using t v n m by simp
qed

section \<open>Paper trading engine: equity\<close>






text \<open>A price update changes the status of no account.\<close>

lemma updateAccountMetrics_status [simp]:
  "acc_status (fst (updateAccountMetrics now account c)) = acc_status account"
  by (simp add: updateAccountMetrics_def Let_def)

lemma recordEquityPoint_status [simp]:
  "acc_status (fst (recordEquityPoint now account c)) = acc_status account"
  by (simp add: recordEquityPoint_def Let_def)

lemma closePosition_status [simp]:
  "acc_status (fst (snd (closePosition now i price rsn account c))) = acc_status account"
  by (simp add: closePosition_def Let_def case_prod_unfold)

lemma partialClose_status [simp]:
  "acc_status (fst (partialClose now i k price account c)) = acc_status account"
  by (simp add: partialClose_def Let_def)

lemma checkTakeProfits_status [simp]:
  "acc_status (fst (checkTakeProfits now i price ks account c)) = acc_status account"
  by (induction ks arbitrary: account c) simp_all

lemma updatePositionPrice_status [simp]:
  "acc_status (fst (updatePositionPrice now i price account c)) = acc_status account"
  by (simp add: updatePositionPrice_def Let_def case_prod_unfold)

lemma updatePositions_status [simp]:
  "acc_status (fst (updatePositions now prices ks account c)) = acc_status account"
  by (induction ks arbitrary: account c) simp_all

lemma updateAccount_status [simp]:
  "acc_status (fst (updateAccount now prices account c)) = acc_status account"
  by (simp add: updateAccount_def Let_def case_prod_unfold)

lemma updateAccounts_keeps_status:
  "map (\<lambda>p. (fst p, acc_status (snd p))) (fst (updateAccounts now prices accs c))
     = map (\<lambda>p. (fst p, acc_status (snd p))) accs"
  by (induction accs arbitrary: c) auto

lemma updatePrices_keeps_status:
  "map (\<lambda>p. (fst p, acc_status (snd p))) (accounts (updatePrices now prices eng))
     = map (\<lambda>p. (fst p, acc_status (snd p))) (accounts eng)"
  by (simp add: updatePrices_def case_prod_unfold updateAccounts_keeps_status)




section \<open>Paper trading engine: stop-loss before take-profit\<close>

lemma updateAccountMetrics_positions [simp]:
  "positions (fst (updateAccountMetrics now account c)) = positions account"
  "tradeHistory (fst (updateAccountMetrics now account c)) = tradeHistory account"
  by (simp_all add: updateAccountMetrics_def Let_def)

lemma recordEquityPoint_positions [simp]:
  "positions (fst (recordEquityPoint now account c)) = positions account"
  "tradeHistory (fst (recordEquityPoint now account c)) = tradeHistory account"
  by (simp_all add: recordEquityPoint_def Let_def)

lemma stopLossHit_price_update [simp]:
  "stopLossHit (position\<lparr>currentPrice := p, unrealizedPnl := u, unrealizedPnlPercent := v\<rparr>) price
     = stopLossHit position price"
  by (simp add: stopLossHit_def)

text \<open>When the stop is hit, the tick is the close at the stop price and nothing else.\<close>

lemma updatePositionPrice_stop_hit:
  assumes "stopLossHit (positions account ! i) price"
  shows "updatePositionPrice now i price account c
     = snd (closePosition now i (the (stopLoss (positions account ! i))) SL
         (account\<lparr>positions := (positions account)
            [i := (positions account ! i)
               \<lparr>currentPrice := price,
                unrealizedPnl :=
                  (if direction (positions account ! i) = LONG
                   then (price - avgEntryPrice (positions account ! i))
                          * totalSize (positions account ! i)
                   else (avgEntryPrice (positions account ! i) - price)
                          * totalSize (positions account ! i)),
                unrealizedPnlPercent :=
                  ((if direction (positions account ! i) = LONG
                    then (price - avgEntryPrice (positions account ! i))
                           * totalSize (positions account ! i)
                    else (avgEntryPrice (positions account ! i) - price)
                           * totalSize (positions account ! i))
                   / margin (positions account ! i)) * Fin 100\<rparr>]\<rparr>) c)"
  using assms by (simp add: updatePositionPrice_def Let_def)

lemma closePosition_open:
  assumes "i < length (positions account)" "status (positions account ! i) = OPEN"
  shows "status (positions (fst (snd (closePosition now i price rsn account c))) ! i) = CLOSED
    \<and> closeReason (positions (fst (snd (closePosition now i price rsn account c))) ! i) = Some rsn
    \<and> avgExitPrice (positions (fst (snd (closePosition now i price rsn account c))) ! i)
        = Some price
    \<and> takeProfitTargets (positions (fst (snd (closePosition now i price rsn account c))) ! i)
        = takeProfitTargets (positions account ! i)
    \<and> (\<exists>e. exits (positions (fst (snd (closePosition now i price rsn account c))) ! i)
              = exits (positions account ! i) @ [e]
            \<and> exit_price e = price \<and> exit_size e = totalSize (positions account ! i)
            \<and> exit_reason e = rsn \<and> tpIndex e = None)
    \<and> (\<exists>t. tradeHistory (fst (snd (closePosition now i price rsn account c)))
              = tradeHistory account @ [t]
            \<and> trade_closeReason t = rsn)"
  using assms by (simp add: closePosition_def Let_def case_prod_unfold createTrade_def)

text \<open>
  C3. On a price tick of an open position whose stop-loss is hit (the stop is set, and the
  price is at or below it for a long position, at or above it for a short one), whether or
  not a take-profit target is hit as well: the position is closed with close reason
  \<open>SL\<close> at the stop price, by one exit of reason \<open>SL\<close> over the whole remaining
  size, a trade with close reason \<open>SL\<close> is recorded, and no take-profit target is
  filled or changed.
\<close>

theorem stop_loss_precedes_take_profit:
  assumes "i < length (positions account)"
    and "status (positions account ! i) = OPEN"
    and "stopLossHit (positions account ! i) price"
  shows "status (positions (fst (updatePositionPrice now i price account c)) ! i) = CLOSED
    \<and> closeReason (positions (fst (updatePositionPrice now i price account c)) ! i) = Some SL
    \<and> avgExitPrice (positions (fst (updatePositionPrice now i price account c)) ! i)
        = stopLoss (positions account ! i)
    \<and> takeProfitTargets (positions (fst (updatePositionPrice now i price account c)) ! i)
        = takeProfitTargets (positions account ! i)
    \<and> (\<exists>e. exits (positions (fst (updatePositionPrice now i price account c)) ! i)
              = exits (positions account ! i) @ [e]
            \<and> exit_price e = the (stopLoss (positions account ! i))
            \<and> exit_size e = totalSize (positions account ! i)
            \<and> exit_reason e = SL \<and> tpIndex e = None)
    \<and> (\<exists>t. tradeHistory (fst (updatePositionPrice now i price account c))
              = tradeHistory account @ [t]
            \<and> trade_closeReason t = SL)"
proof -
  from assms(3) obtain sl where sl: "stopLoss (positions account ! i) = Some sl"
    by (cases "stopLoss (positions account ! i)") (auto simp: stopLossHit_def truthy_opt_def)
  define account1 where "account1 = account\<lparr>positions := (positions account)
            [i := (positions account ! i)
               \<lparr>currentPrice := price,
                unrealizedPnl :=
                  (if direction (positions account ! i) = LONG
                   then (price - avgEntryPrice (positions account ! i))
                          * totalSize (positions account ! i)
                   else (avgEntryPrice (positions account ! i) - price)
                          * totalSize (positions account ! i)),
                unrealizedPnlPercent :=
                  ((if direction (positions account ! i) = LONG
                    then (price - avgEntryPrice (positions account ! i))
                           * totalSize (positions account ! i)
                    else (avgEntryPrice (positions account ! i) - price)
                           * totalSize (positions account ! i))
                   / margin (positions account ! i)) * Fin 100\<rparr>]\<rparr>"
  have u: "updatePositionPrice now i price account c = snd (closePosition now i sl SL account1 c)"
    using updatePositionPrice_stop_hit[OF assms(3), of now c] sl by (simp add: account1_def)
  have p1: "i < length (positions account1)" "status (positions account1 ! i) = OPEN"
    "takeProfitTargets (positions account1 ! i) = takeProfitTargets (positions account ! i)"
    "exits (positions account1 ! i) = exits (positions account ! i)"
    "totalSize (positions account1 ! i) = totalSize (positions account ! i)"
    "tradeHistory account1 = tradeHistory account"
    using assms(1,2) by (simp_all add: account1_def)
  from closePosition_open[OF p1(1,2), of now sl SL c] show ?thesis
    unfolding u sl p1(3-6) by simp
qed

text \<open>The theorem at a long position with its stop at 110 and a target at 105, on a tick
  at 107 that hits both: closed at 110 by the stop, the target unfilled.\<close>

theorem stop_loss_precedes_take_profit_witness:
  "0 < length (positions long_account)
   \<and> status (positions long_account ! 0) = OPEN
   \<and> stopLossHit (positions long_account ! 0) (Fin 107)
   \<and> isTPHit (positions long_account ! 0) (takeProfitTargets (positions long_account ! 0) ! 0)
        (Fin 107)
   \<and> status (positions (fst (updatePositionPrice 5 0 (Fin 107) long_account engine_ctx_0)) ! 0)
       = CLOSED
   \<and> closeReason (positions (fst (updatePositionPrice 5 0 (Fin 107) long_account engine_ctx_0)) ! 0)
       = Some SL
   \<and> map exit_price
        (exits (positions (fst (updatePositionPrice 5 0 (Fin 107) long_account engine_ctx_0)) ! 0))
       = [Fin 110]
   \<and> map filled
        (takeProfitTargets
           (positions (fst (updatePositionPrice 5 0 (Fin 107) long_account engine_ctx_0)) ! 0))
       = [False]"
proof -
  have h1: "0 < length (positions long_account)" by code_simp
  have h2: "status (positions long_account ! 0) = OPEN" by code_simp
  have h3: "stopLossHit (positions long_account ! 0) (Fin 107)" by code_simp
  have h4: "isTPHit (positions long_account ! 0)
      (takeProfitTargets (positions long_account ! 0) ! 0) (Fin 107)" by code_simp
  have f: "exits (positions long_account ! 0) = []"
    "stopLoss (positions long_account ! 0) = Some (Fin 110)"
    "map filled (takeProfitTargets (positions long_account ! 0)) = [False]"
    by code_simp+
  from stop_loss_precedes_take_profit[OF h1 h2 h3, of 5 engine_ctx_0] f
  show ?thesis using h1 h2 h3 h4 by auto
qed

end
